theory Spec2Isabelle
  imports Main "HOL-Library.Word"
begin

section \<open>Data model of the graphsync transport\<close>

text \<open>
  The embedding follows \<^verbatim>\<open>transport/graphsync/graphsync.go\<close> and
  \<^verbatim>\<open>impl/restart.go\<close>. A method of \<^verbatim>\<open>Transport\<close> becomes a function that takes
  the transport, returns the updated transport and lists, in program order, the calls it
  makes on its collaborators (the registry lock, the session's events handler, the hook
  actions, the engine). Log statements are left out.
\<close>

type_synonym peer_id = string
type_synonym RequestID = "32 word"
type_synonym TransferID = "64 word"

text \<open>\<^verbatim>\<open>graphsyncKey{requestID, p}\<close>; the field \<^verbatim>\<open>p\<close> is the selector \<open>key_p\<close>.\<close>

datatype graphsyncKey = graphsyncKey (requestID: RequestID) (key_p: peer_id)

datatype ChannelID = ChannelID (Initiator: peer_id) (Responder: peer_id) (ID: TransferID)

text \<open>
  Go error values. \<open>None :: error option\<close> is the nil error. \<open>Errorf fmt args\<close> is
  \<^verbatim>\<open>xerrors.Errorf(fmt, args...)\<close> with string arguments, \<open>ErrorfWrap fmt e\<close> the same
  with one wrapped error (\<^verbatim>\<open>%w\<close>), \<open>ErrorsNew\<close> is \<^verbatim>\<open>errors.New\<close>, and \<open>OtherError\<close> is
  any error value made by the engine, the session or the codec.
\<close>

datatype error =
    ErrPause
  | ErrChannelNotFound
  | ErrHandlerNotSet
  | ErrHandlerAlreadySet
  | RequestContextCancelledErr
  | RequestCancelledErr
  | Canceled
  | DeadlineExceeded
  | Errorf string "string list"
  | ErrorfWrap string error
  | ErrorsNew string
  | OtherError string

text \<open>
  A data-transfer message as the hooks use it: \<^verbatim>\<open>IsRequest()\<close>, \<^verbatim>\<open>TransferID()\<close> and
  the rest of the message as an opaque body.
\<close>

datatype Message =
    DTRequest (TransferID: TransferID) (body: string)
  | DTResponse (TransferID: TransferID) (body: string)

fun IsRequest :: "Message \<Rightarrow> bool" where
  "IsRequest (DTRequest _ _) = True"
| "IsRequest (DTResponse _ _) = False"

record ExtensionData =
  Name :: string
  Data :: "8 word list"

text \<open>\<^verbatim>\<open>graphsync.RequestData\<close> and \<^verbatim>\<open>graphsync.ResponseData\<close>: an ID and the extensions.\<close>

record RequestData =
  req_ID :: RequestID
  req_exts :: "ExtensionData list"

record ResponseData =
  resp_RequestID :: RequestID
  resp_exts :: "ExtensionData list"

record BlockData =
  Link :: string
  BlockSize :: "64 word"
  BlockSizeOnWire :: "64 word"

text \<open>
  The fourteen status codes that the source names; \<open>OtherStatus n\<close> is any other value
  of the \<^verbatim>\<open>int32\<close> type \<^verbatim>\<open>graphsync.ResponseStatusCode\<close>.
\<close>

datatype ResponseStatusCode =
    RequestAcknowledged
  | AdditionalPeers
  | NotEnoughGas
  | OtherProtocol
  | PartialResponse
  | RequestPaused
  | RequestCompletedFull
  | RequestCompletedPartial
  | RequestRejected
  | RequestFailedBusy
  | RequestFailedUnknown
  | RequestFailedLegal
  | RequestFailedContentNotFound
  | RequestCancelled
  | OtherStatus "32 word"

text \<open>
  The extension package (\<^verbatim>\<open>extension.GetTransferData\<close>, \<^verbatim>\<open>extension.ToExtensionData\<close>)
  is a parameter. Both results are Go pairs \<^verbatim>\<open>(value, error)\<close>.
\<close>

record codec =
  GetTransferData :: "ExtensionData list \<Rightarrow> Message option \<times> error option"
  ToExtensionData :: "Message \<Rightarrow> string list \<Rightarrow> ExtensionData list \<times> error option"

text \<open>\<^verbatim>\<open>datatransfer.EventsHandler\<close>: the session's callbacks, with the values they return.\<close>

record EventsHandler =
  OnChannelOpened :: "ChannelID \<Rightarrow> error option"
  OnRequestReceived :: "ChannelID \<Rightarrow> Message \<Rightarrow> Message option \<times> error option"
  OnResponseReceived :: "ChannelID \<Rightarrow> Message \<Rightarrow> error option"
  OnDataReceived :: "ChannelID \<Rightarrow> string \<Rightarrow> 64 word \<Rightarrow> error option"
  OnDataQueued :: "ChannelID \<Rightarrow> string \<Rightarrow> 64 word \<Rightarrow> Message option \<times> error option"
  OnDataSent :: "ChannelID \<Rightarrow> string \<Rightarrow> 64 word \<Rightarrow> error option"
  OnRequestTimedOut :: "ChannelID \<Rightarrow> error \<Rightarrow> error option"
  OnSendDataError :: "ChannelID \<Rightarrow> error \<Rightarrow> error option"
  OnReceiveDataError :: "ChannelID \<Rightarrow> error \<Rightarrow> error option"
  OnChannelCompleted :: "ChannelID \<Rightarrow> error option \<Rightarrow> error option"

text \<open>The calls a method makes, as they appear in its trace.\<close>

datatype event_call =
    EvChannelOpened ChannelID
  | EvRequestReceived ChannelID Message
  | EvResponseReceived ChannelID Message
  | EvDataReceived ChannelID string "64 word"
  | EvDataQueued ChannelID string "64 word"
  | EvDataSent ChannelID string "64 word"
  | EvRequestTimedOut ChannelID error
  | EvSendDataError ChannelID error
  | EvReceiveDataError ChannelID error
  | EvChannelCompleted ChannelID "error option"

text \<open>
  Methods of the hook-action objects. The persistence option's name is
  \<^verbatim>\<open>"data-transfer-" + chid.String()\<close>; the action carries the channel ID.
\<close>

datatype hook_action =
    TerminateWithError "error option"
  | SendExtensionData ExtensionData
  | UpdateRequestWithExtensions ExtensionData
  | PauseResponse
  | PauseRequest
  | UsePersistenceOption ChannelID
  | ValidateRequest

text \<open>
  Methods of \<^verbatim>\<open>t.gs\<close>, the engine. A function \<open>gs :: engine_call \<Rightarrow> error option\<close>
  gives the error the engine returns to a call.
\<close>

datatype engine_call =
    GsPauseRequest RequestID
  | GsUnpauseRequest RequestID "ExtensionData list"
  | GsPauseResponse peer_id RequestID
  | GsUnpauseResponse peer_id RequestID "ExtensionData list"
  | GsCancelResponse peer_id RequestID
  | GsRegisterPersistenceOption ChannelID
  | GsUnregisterPersistenceOption ChannelID
  | GsRequest peer_id string string "ExtensionData list"

text \<open>The eleven hooks and listeners that \<^verbatim>\<open>SetEventHandler\<close> registers.\<close>

datatype hook_name =
    IncomingRequestHook
  | CompletedResponseListener
  | IncomingBlockHook
  | OutgoingBlockHook
  | BlockSentListener
  | OutgoingRequestHook
  | IncomingResponseHook
  | RequestUpdatedHook
  | RequestorCancelledListener
  | NetworkErrorListener
  | ReceiverNetworkErrorListener

text \<open>
  A cancel function and a channel (\<^verbatim>\<open>chan struct{}\<close>) are identified by a number.
  \<open>ChanLock\<close> and \<open>ChanUnlock\<close> are \<^verbatim>\<open>t.chanLocker.lock(channelID)\<close> and the unlock
  function it returns.
\<close>

record cancelRequest =
  cancel :: nat
  completed :: nat

datatype action =
    Lock
  | Unlock
  | RLock
  | RUnlock
  | Event event_call
  | Hook hook_action
  | Engine engine_call
  | Cancel nat
  | Close nat
  | Register hook_name
  | Unregister hook_name
  | CompletedRequestListenerCall ChannelID
  | CompletedResponseListenerCall ChannelID
  | OnComplete
  | ChanLock ChannelID
  | ChanUnlock ChannelID
  | GoExecuteGsRequest ChannelID

text \<open>
  The \<^verbatim>\<open>Transport\<close> struct, without the engine handle and the locks. The two maps
  to \<^verbatim>\<open>struct{}\<close> are sets. The two test listeners are present or absent.
\<close>

record Transport =
  events :: "EventsHandler option"
  peerID :: peer_id
  graphsyncRequestMap :: "graphsyncKey \<rightharpoonup> ChannelID"
  channelIDMap :: "ChannelID \<rightharpoonup> graphsyncKey"
  contextCancelMap :: "ChannelID \<rightharpoonup> cancelRequest"
  pending :: "ChannelID \<rightharpoonup> nat"
  requestorCancelledMap :: "ChannelID set"
  channelXferStarted :: "ChannelID \<rightharpoonup> bool"
  pendingExtensions :: "ChannelID \<rightharpoonup> ExtensionData list"
  stores :: "ChannelID set"
  supportedExtensions :: "string list"
  unregisterFuncs :: "hook_name list"
  completedRequestListener :: bool
  completedResponseListener :: bool

text \<open>\<^verbatim>\<open>NewTransport(peerID, gs)\<close> with no options.\<close>

definition defaultSupportedExtensions :: "string list" where
  "defaultSupportedExtensions = [''ExtensionDataTransfer1_1'', ''ExtensionDataTransfer1_0'']"

definition NewTransport :: "peer_id \<Rightarrow> Transport" where
  "NewTransport pid =
     \<lparr> events = None, peerID = pid,
       graphsyncRequestMap = Map.empty, channelIDMap = Map.empty,
       contextCancelMap = Map.empty, pending = Map.empty,
       requestorCancelledMap = {}, channelXferStarted = Map.empty,
       pendingExtensions = Map.empty, stores = {},
       supportedExtensions = defaultSupportedExtensions, unregisterFuncs = [],
       completedRequestListener = False, completedResponseListener = False \<rparr>"

section \<open>Hooks that write the registry\<close>

text \<open>
  \<^verbatim>\<open>gsOutgoingRequestHook\<close>. The hooks run after \<^verbatim>\<open>SetEventHandler\<close> has stored the
  handler, which they take as the argument \<open>ev\<close>.
\<close>

definition gsOutgoingRequestHook ::
  "EventsHandler \<Rightarrow> codec \<Rightarrow> Transport \<Rightarrow> peer_id \<Rightarrow> RequestData \<Rightarrow> Transport \<times> action list" where
  "gsOutgoingRequestHook ev cd t p request =
     (case fst (GetTransferData cd (req_exts request)) of
        None \<Rightarrow> (t, [])
      | Some message \<Rightarrow>
          (let initiator = (if IsRequest message then peerID t else p);
               responder = (if IsRequest message then p else peerID t);
               chid = ChannelID initiator responder (TransferID message);
               err = OnChannelOpened ev chid;
               gsKey = graphsyncKey (req_ID request) (peerID t);
               t1 = (if err = None
                     then t\<lparr> graphsyncRequestMap := (graphsyncRequestMap t)(gsKey \<mapsto> chid),
                             channelIDMap := (channelIDMap t)(chid \<mapsto> gsKey) \<rparr>
                     else t);
               t2 = t1\<lparr> pending := (pending t1)(chid := None) \<rparr>;
               a2 = (case pending t1 chid of None \<Rightarrow> [] | Some l \<Rightarrow> [Close l]);
               a3 = (if chid \<in> stores t2 then [Hook (UsePersistenceOption chid)] else [])
           in (t2, [Event (EvChannelOpened chid), Lock] @ a2 @ a3 @ [Unlock])))"

text \<open>
  \<^verbatim>\<open>gsReqRecdHook\<close>, the incoming-request hook, in two parts. \<open>gsReqRecdHook_locked\<close>
  is the part between \<^verbatim>\<open>t.dataLock.Lock()\<close> and \<^verbatim>\<open>t.dataLock.Unlock()\<close>;
  \<open>paused0\<close> is the value of \<^verbatim>\<open>paused\<close> when the lock is taken.
\<close>

definition gsReqRecdHook_locked ::
  "Transport \<Rightarrow> ChannelID \<Rightarrow> peer_id \<Rightarrow> RequestData \<Rightarrow> bool \<Rightarrow> Transport \<times> action list" where
  "gsReqRecdHook_locked t chid p request paused0 =
     (let restartPause = (case channelXferStarted t chid of
                            None \<Rightarrow> False
                          | Some hasXferStarted \<Rightarrow> \<not> hasXferStarted \<and> \<not> paused0);
          paused = (paused0 \<or> restartPause);
          a3 = (if restartPause then [Hook PauseResponse] else []);
          gsKey = graphsyncKey (req_ID request) p;
          cancelled = (chid \<in> requestorCancelledMap t);
          extensions = (case pendingExtensions t chid of None \<Rightarrow> [] | Some xs \<Rightarrow> xs);
          a4 = (if cancelled then map (\<lambda>x. Hook (SendExtensionData x)) extensions else []);
          a5 = (if chid \<in> stores t then [Hook (UsePersistenceOption chid)] else [])
      in (t\<lparr> channelXferStarted := (channelXferStarted t)(chid \<mapsto> \<not> paused),
             requestorCancelledMap :=
               (if cancelled then requestorCancelledMap t - {chid} else requestorCancelledMap t),
             pendingExtensions :=
               (if cancelled then (pendingExtensions t)(chid := None) else pendingExtensions t),
             graphsyncRequestMap := (graphsyncRequestMap t)(gsKey \<mapsto> chid),
             channelIDMap := (channelIDMap t)(chid \<mapsto> gsKey) \<rparr>,
          [Lock] @ a3 @ a4 @ a5 @ [Unlock]))"

text \<open>
  What the incoming-request, request-updated and incoming-response hooks do with the
  session's response message: \<open>None\<close> when \<^verbatim>\<open>extensionErr != nil\<close>, else one call of
  \<open>send\<close> (\<^verbatim>\<open>SendExtensionData\<close> or \<^verbatim>\<open>UpdateRequestWithExtensions\<close>) for each extension.
\<close>

definition sendResponseMessage ::
  "codec \<Rightarrow> Transport \<Rightarrow> (ExtensionData \<Rightarrow> hook_action) \<Rightarrow> Message option \<Rightarrow> action list option" where
  "sendResponseMessage cd t send responseMessage =
     (case responseMessage of
        None \<Rightarrow> Some []
      | Some rm \<Rightarrow>
          (case ToExtensionData cd rm (supportedExtensions t) of
             (extensions, extensionErr) \<Rightarrow>
               (case extensionErr of
                  Some _ \<Rightarrow> None
                | None \<Rightarrow> Some (map (\<lambda>x. Hook (send x)) extensions))))"

definition gsReqRecdHook ::
  "EventsHandler \<Rightarrow> codec \<Rightarrow> Transport \<Rightarrow> peer_id \<Rightarrow> RequestData \<Rightarrow> Transport \<times> action list" where
  "gsReqRecdHook ev cd t p request =
     (case GetTransferData cd (req_exts request) of
        (msg0, err0) \<Rightarrow>
          (case err0 of
             Some e \<Rightarrow> (t, [Hook (TerminateWithError (Some e))])
           | None \<Rightarrow>
               (case msg0 of
                  None \<Rightarrow> (t, [])
                | Some msg \<Rightarrow>
                    (let chid = (if IsRequest msg then ChannelID p (peerID t) (TransferID msg)
                                 else ChannelID (peerID t) p (TransferID msg));
                         (responseMessage, err) =
                            (if IsRequest msg then OnRequestReceived ev chid msg
                             else (None, OnResponseReceived ev chid msg));
                         a0 = [Event (if IsRequest msg then EvRequestReceived chid msg
                                      else EvResponseReceived chid msg)]
                     in case sendResponseMessage cd t SendExtensionData responseMessage of
                          None \<Rightarrow> (t, a0 @ [Hook (TerminateWithError err)])
                        | Some a1 \<Rightarrow>
                            if err \<noteq> None \<and> err \<noteq> Some ErrPause
                            then (t, a0 @ a1 @ [Hook (TerminateWithError err)])
                            else
                              (let paused0 = (err = Some ErrPause);
                                   a2 = (if paused0 then [Hook PauseResponse] else []);
                                   (t', a3) = gsReqRecdHook_locked t chid p request paused0
                               in (t', a0 @ a1 @ a2 @ a3 @ [Hook ValidateRequest]))))))"

text \<open>
  \<^verbatim>\<open>cleanupChannel\<close> and \<^verbatim>\<open>CleanupChannel\<close>. The error of
  \<^verbatim>\<open>UnregisterPersistenceOption\<close> is only logged.
\<close>

definition cleanupChannel :: "Transport \<Rightarrow> ChannelID \<Rightarrow> graphsyncKey \<Rightarrow> Transport \<times> action list" where
  "cleanupChannel t chid gsKey =
     (t\<lparr> channelIDMap := (channelIDMap t)(chid := None),
         contextCancelMap := (contextCancelMap t)(chid := None),
         pending := (pending t)(chid := None),
         graphsyncRequestMap := (graphsyncRequestMap t)(gsKey := None),
         pendingExtensions := (pendingExtensions t)(chid := None),
         requestorCancelledMap := requestorCancelledMap t - {chid},
         channelXferStarted := (channelXferStarted t)(chid := None),
         stores := stores t - {chid} \<rparr>,
      if chid \<in> stores t then [Engine (GsUnregisterPersistenceOption chid)] else [])"

definition CleanupChannel :: "Transport \<Rightarrow> ChannelID \<Rightarrow> Transport \<times> action list" where
  "CleanupChannel t chid =
     (case channelIDMap t chid of
        None \<Rightarrow> (t, [Lock, Unlock])
      | Some gsKey \<Rightarrow>
          (let (t', a) = cleanupChannel t chid gsKey in (t', [Lock] @ a @ [Unlock])))"

section \<open>Hooks and listeners that read the registry\<close>

definition gsIncomingBlockHook ::
  "EventsHandler \<Rightarrow> Transport \<Rightarrow> peer_id \<Rightarrow> ResponseData \<Rightarrow> BlockData \<Rightarrow> action list" where
  "gsIncomingBlockHook ev t p response block =
     (case graphsyncRequestMap t (graphsyncKey (resp_RequestID response) (peerID t)) of
        None \<Rightarrow> [RLock, RUnlock]
      | Some chid \<Rightarrow>
          (let err = OnDataReceived ev chid (Link block) (BlockSize block)
           in [RLock, RUnlock, Event (EvDataReceived chid (Link block) (BlockSize block))] @
              (if err \<noteq> None \<and> err \<noteq> Some ErrPause then [Hook (TerminateWithError err)]
               else if err = Some ErrPause then [Hook PauseRequest]
               else [])))"

definition gsBlockSentHook ::
  "EventsHandler \<Rightarrow> Transport \<Rightarrow> peer_id \<Rightarrow> RequestData \<Rightarrow> BlockData \<Rightarrow> action list" where
  "gsBlockSentHook ev t p request block =
     (if BlockSizeOnWire block = 0 then []
      else case graphsyncRequestMap t (graphsyncKey (req_ID request) p) of
             None \<Rightarrow> [RLock, RUnlock]
           | Some chid \<Rightarrow>
               [RLock, RUnlock, Event (EvDataSent chid (Link block) (BlockSize block))])"

definition gsOutgoingBlockHook ::
  "EventsHandler \<Rightarrow> codec \<Rightarrow> Transport \<Rightarrow> peer_id \<Rightarrow> RequestData \<Rightarrow> BlockData \<Rightarrow> action list" where
  "gsOutgoingBlockHook ev cd t p request block =
     (if BlockSizeOnWire block = 0 then []
      else case graphsyncRequestMap t (graphsyncKey (req_ID request) p) of
             None \<Rightarrow> [RLock, RUnlock]
           | Some chid \<Rightarrow>
               (case OnDataQueued ev chid (Link block) (BlockSize block) of
                  (msg, err) \<Rightarrow>
                    [RLock, RUnlock, Event (EvDataQueued chid (Link block) (BlockSize block))] @
                    (if err \<noteq> None \<and> err \<noteq> Some ErrPause then [Hook (TerminateWithError err)]
                     else (if err = Some ErrPause then [Hook PauseResponse] else []) @
                          (case msg of
                             None \<Rightarrow> []
                           | Some m \<Rightarrow>
                               (case ToExtensionData cd m (supportedExtensions t) of
                                  (extensions, err') \<Rightarrow>
                                    (case err' of
                                       Some e \<Rightarrow> [Hook (TerminateWithError (Some e))]
                                     | None \<Rightarrow> map (\<lambda>x. Hook (SendExtensionData x)) extensions))))))"

text \<open>The table \<^verbatim>\<open>gsResponseStatusCodes\<close> and \<^verbatim>\<open>gsResponseStatusCodeString\<close>.\<close>

definition gsResponseStatusCodes :: "(ResponseStatusCode \<times> string) list" where
  "gsResponseStatusCodes =
     [(RequestAcknowledged, ''RequestAcknowledged''),
      (AdditionalPeers, ''AdditionalPeers''),
      (NotEnoughGas, ''NotEnoughGas''),
      (OtherProtocol, ''OtherProtocol''),
      (PartialResponse, ''PartialResponse''),
      (RequestPaused, ''RequestPaused''),
      (RequestCompletedFull, ''RequestCompletedFull''),
      (RequestCompletedPartial, ''RequestCompletedPartial''),
      (RequestRejected, ''RequestRejected''),
      (RequestFailedBusy, ''RequestFailedBusy''),
      (RequestFailedUnknown, ''RequestFailedUnknown''),
      (RequestFailedLegal, ''RequestFailedLegal''),
      (RequestFailedContentNotFound, ''RequestFailedContentNotFound''),
      (RequestCancelled, ''RequestCancelled'')]"

definition gsResponseStatusCodeString :: "ResponseStatusCode \<Rightarrow> string" where
  "gsResponseStatusCodeString code =
     (case map_of gsResponseStatusCodes code of
        Some str \<Rightarrow> str
      | None \<Rightarrow> (case map_of gsResponseStatusCodes RequestFailedUnknown of
                   Some str \<Rightarrow> str
                 | None \<Rightarrow> []))"

definition gsCompletedResponseListener ::
  "EventsHandler \<Rightarrow> Transport \<Rightarrow> peer_id \<Rightarrow> RequestData \<Rightarrow> ResponseStatusCode \<Rightarrow> action list" where
  "gsCompletedResponseListener ev t p request status =
     (case graphsyncRequestMap t (graphsyncKey (req_ID request) p) of
        None \<Rightarrow> [RLock, RUnlock]
      | Some chid \<Rightarrow>
          if status = RequestCancelled then [RLock, RUnlock]
          else
            (let completeErr =
                   (if status \<noteq> RequestCompletedFull
                    then Some (Errorf ''graphsync response to peer %s did not complete: response status code %s''
                                 [p, gsResponseStatusCodeString status])
                    else None)
             in [RLock, RUnlock] @
                (if completedResponseListener t then [CompletedResponseListenerCall chid] else []) @
                [Event (EvChannelCompleted chid completeErr)]))"

text \<open>
  \<^verbatim>\<open>processExtension\<close>: the pair it returns and the session callback it makes.
\<close>

definition processExtension ::
  "EventsHandler \<Rightarrow> codec \<Rightarrow> Transport \<Rightarrow> ChannelID \<Rightarrow> ExtensionData list \<Rightarrow> peer_id
     \<Rightarrow> (Message option \<times> error option) \<times> action list" where
  "processExtension ev cd t chid gsMsg p =
     (case GetTransferData cd gsMsg of
        (msg0, err0) \<Rightarrow>
          (case err0 of
             Some e \<Rightarrow> ((None, Some e), [])
           | None \<Rightarrow>
               (case msg0 of
                  None \<Rightarrow> ((None, None), [])
                | Some msg \<Rightarrow>
                    if IsRequest msg
                    then (if chid \<noteq> ChannelID p (peerID t) (TransferID msg)
                          then ((None, Some (ErrorsNew ''received request on response channel'')), [])
                          else (OnRequestReceived ev chid msg, [Event (EvRequestReceived chid msg)]))
                    else (if chid \<noteq> ChannelID (peerID t) p (TransferID msg)
                          then ((None, Some (ErrorsNew ''received response on request channel'')), [])
                          else ((None, OnResponseReceived ev chid msg),
                                [Event (EvResponseReceived chid msg)])))))"

definition gsRequestUpdatedHook ::
  "EventsHandler \<Rightarrow> codec \<Rightarrow> Transport \<Rightarrow> peer_id \<Rightarrow> RequestData \<Rightarrow> RequestData \<Rightarrow> action list" where
  "gsRequestUpdatedHook ev cd t p request update =
     (case graphsyncRequestMap t (graphsyncKey (req_ID request) p) of
        None \<Rightarrow> [RLock, RUnlock]
      | Some chid \<Rightarrow>
          (case processExtension ev cd t chid (req_exts update) p of
             ((responseMessage, err), a0) \<Rightarrow>
               [RLock, RUnlock] @ a0 @
               (case sendResponseMessage cd t SendExtensionData responseMessage of
                  None \<Rightarrow> [Hook (TerminateWithError err)]
                | Some a1 \<Rightarrow>
                    a1 @ (if err \<noteq> None \<and> err \<noteq> Some ErrPause
                          then [Hook (TerminateWithError err)] else []))))"

definition gsIncomingResponseHook ::
  "EventsHandler \<Rightarrow> codec \<Rightarrow> Transport \<Rightarrow> peer_id \<Rightarrow> ResponseData \<Rightarrow> action list" where
  "gsIncomingResponseHook ev cd t p response =
     (case graphsyncRequestMap t (graphsyncKey (resp_RequestID response) (peerID t)) of
        None \<Rightarrow> [RLock, RUnlock]
      | Some chid \<Rightarrow>
          (case processExtension ev cd t chid (resp_exts response) p of
             ((responseMessage, err), a0) \<Rightarrow>
               [RLock, RUnlock] @ a0 @
               (case sendResponseMessage cd t UpdateRequestWithExtensions responseMessage of
                  None \<Rightarrow> [Hook (TerminateWithError err)]
                | Some a1 \<Rightarrow>
                    a1 @ (if err \<noteq> None then [Hook (TerminateWithError err)] else []))))"

definition gsRequestorCancelledListener ::
  "Transport \<Rightarrow> peer_id \<Rightarrow> RequestData \<Rightarrow> Transport \<times> action list" where
  "gsRequestorCancelledListener t p request =
     (case graphsyncRequestMap t (graphsyncKey (req_ID request) p) of
        None \<Rightarrow> (t, [Lock, Unlock])
      | Some chid \<Rightarrow>
          (t\<lparr> requestorCancelledMap := insert chid (requestorCancelledMap t) \<rparr>, [Lock, Unlock]))"

text \<open>
  The two network-error listeners take the lock and release it in a deferred call, which
  runs when the function returns.
\<close>

definition gsNetworkSendErrorListener ::
  "EventsHandler \<Rightarrow> Transport \<Rightarrow> peer_id \<Rightarrow> RequestData \<Rightarrow> error \<Rightarrow> action list" where
  "gsNetworkSendErrorListener ev t p request gserr =
     (case (case graphsyncRequestMap t (graphsyncKey (req_ID request) p) of
              Some chid \<Rightarrow> Some chid
            | None \<Rightarrow> graphsyncRequestMap t (graphsyncKey (req_ID request) (peerID t))) of
        None \<Rightarrow> [Lock, Unlock]
      | Some chid \<Rightarrow> [Lock, Event (EvSendDataError chid gserr), Unlock])"

text \<open>
  \<^verbatim>\<open>gsNetworkReceiveErrorListener\<close> ranges over \<^verbatim>\<open>t.graphsyncRequestMap\<close>. Go leaves
  the order of a map range open; \<open>order\<close> is the order in which this run visits the keys.
\<close>

definition gsNetworkReceiveErrorListener ::
  "EventsHandler \<Rightarrow> Transport \<Rightarrow> graphsyncKey list \<Rightarrow> peer_id \<Rightarrow> error \<Rightarrow> action list" where
  "gsNetworkReceiveErrorListener ev t order p gserr =
     [Lock] @
     concat (map (\<lambda>k. case graphsyncRequestMap t k of
                         None \<Rightarrow> []
                       | Some chid \<Rightarrow>
                           if Initiator chid \<noteq> p \<and> Responder chid \<noteq> p then []
                           else [Event (EvReceiveDataError chid gserr)]) order) @
     [Unlock]"

section \<open>The request executor\<close>

text \<open>
  \<^verbatim>\<open>consumeResponses\<close> drains both channels; the model takes what was sent on them
  before they were closed. A value sent on \<^verbatim>\<open>errChan\<close> may be nil.
\<close>

definition consumeResponses :: "'r list \<Rightarrow> error option list \<Rightarrow> error option" where
  "consumeResponses responseChan errChan = foldl (\<lambda>lastError err. err) None errChan"

text \<open>
  \<^verbatim>\<open>executeGsRequest\<close>; \<open>internalCtxErr\<close> is \<^verbatim>\<open>internalCtx.Err()\<close>. The deferred
  \<^verbatim>\<open>onComplete()\<close> is the last action on every path.
\<close>

definition executeGsRequest ::
  "EventsHandler \<Rightarrow> Transport \<Rightarrow> error option \<Rightarrow> ChannelID \<Rightarrow> 'r list \<Rightarrow> error option list
     \<Rightarrow> action list" where
  "executeGsRequest ev t internalCtxErr channelID responseChan errChan =
     (let lastError = consumeResponses responseChan errChan
      in (if lastError = Some RequestContextCancelledErr
          then [Event (EvRequestTimedOut channelID (Errorf ''graphsync request context cancelled'' []))]
          else if lastError = Some RequestCancelledErr then []
          else if internalCtxErr \<noteq> None then []
          else
            (let completeErr =
                   (case lastError of
                      None \<Rightarrow> None
                    | Some e \<Rightarrow> Some (ErrorfWrap ''graphsync request failed to complete: %w'' e))
             in (if completedRequestListener t then [CompletedRequestListenerCall channelID] else []) @
                [Event (EvChannelCompleted channelID completeErr)])) @
         [OnComplete])"

section \<open>Waiting for a cancelled request\<close>






datatype wait_case = CompletedClosed | TimerFired | CtxDone



section \<open>The transport's public operations\<close>


text \<open>
  \<^verbatim>\<open>gsKeyFromChannelID\<close>. When the channel has a pending latch and no key, the loop
  blocks in a \<^verbatim>\<open>select\<close>; the list of wake-ups says how each such \<^verbatim>\<open>select\<close> ends:
  with \<^verbatim>\<open>ctx.Done()\<close>, or with the latch closed, and then the registry as the next
  round of the loop reads it. With no wake-up left the call blocks for ever, which is
  the result \<open>None\<close>. Otherwise the result is the key or the error, the registry last
  read, and the trace.
\<close>

datatype wakeup = CtxIsDone | PendingClosed Transport

fun gsKeyFromChannelID ::
  "wakeup list \<Rightarrow> Transport \<Rightarrow> ChannelID \<Rightarrow> ((error + graphsyncKey) \<times> Transport \<times> action list) option" where
  "gsKeyFromChannelID ws t chid =
     (case channelIDMap t chid of
        Some gsKey \<Rightarrow> Some (Inr gsKey, t, [RLock, RUnlock])
      | None \<Rightarrow>
          (case pending t chid of
             None \<Rightarrow> Some (Inl ErrChannelNotFound, t, [RLock, RUnlock])
           | Some pendingCh \<Rightarrow>
               (case ws of
                  [] \<Rightarrow> None
                | CtxIsDone # _ \<Rightarrow> Some (Inl ErrChannelNotFound, t, [RLock, RUnlock])
                | PendingClosed t' # ws' \<Rightarrow>
                    map_option (\<lambda>(r, t'', a). (r, t'', [RLock, RUnlock] @ a))
                      (gsKeyFromChannelID ws' t' chid))))"

declare gsKeyFromChannelID.simps [simp del]

text \<open>
  \<^verbatim>\<open>PauseChannel\<close>, \<^verbatim>\<open>ResumeChannel\<close> and \<^verbatim>\<open>CloseChannel\<close>. The result is \<open>None\<close>
  when the call blocks for ever in \<^verbatim>\<open>gsKeyFromChannelID\<close>; otherwise the error
  returned, the transport and the trace. The registry is taken not to change between
  the return of \<^verbatim>\<open>gsKeyFromChannelID\<close> and the end of the call.
\<close>

definition PauseChannel ::
  "(engine_call \<Rightarrow> error option) \<Rightarrow> wakeup list \<Rightarrow> Transport \<Rightarrow> ChannelID
     \<Rightarrow> (error option \<times> Transport \<times> action list) option" where
  "PauseChannel gs ws t chid =
     (if events t = None then Some (Some ErrHandlerNotSet, t, [])
      else case gsKeyFromChannelID ws t chid of
             None \<Rightarrow> None
           | Some (r, t1, a) \<Rightarrow>
               (case r of
                  Inl err \<Rightarrow> Some (Some err, t1, a)
                | Inr gsKey \<Rightarrow>
                    if key_p gsKey = peerID t1
                    then Some (gs (GsPauseRequest (requestID gsKey)), t1,
                               a @ [Engine (GsPauseRequest (requestID gsKey))])
                    else if chid \<in> requestorCancelledMap t1
                    then Some (None, t1, a @ [RLock, RUnlock])
                    else Some (gs (GsPauseResponse (key_p gsKey) (requestID gsKey)), t1,
                               a @ [RLock, Engine (GsPauseResponse (key_p gsKey) (requestID gsKey)),
                                    RUnlock])))"

definition ResumeChannel ::
  "(engine_call \<Rightarrow> error option) \<Rightarrow> codec \<Rightarrow> wakeup list \<Rightarrow> Transport \<Rightarrow> Message option \<Rightarrow> ChannelID
     \<Rightarrow> (error option \<times> Transport \<times> action list) option" where
  "ResumeChannel gs cd ws t msg chid =
     (if events t = None then Some (Some ErrHandlerNotSet, t, [])
      else case gsKeyFromChannelID ws t chid of
             None \<Rightarrow> None
           | Some (r, t1, a) \<Rightarrow>
               (case r of
                  Inl err \<Rightarrow> Some (Some err, t1, a)
                | Inr gsKey \<Rightarrow>
                    (case (case msg of
                             None \<Rightarrow> ([], None)
                           | Some m \<Rightarrow> ToExtensionData cd m (supportedExtensions t1)) of
                       (extensions, err) \<Rightarrow>
                         if msg \<noteq> None \<and> err \<noteq> None then Some (err, t1, a)
                         else if key_p gsKey = peerID t1
                         then Some (gs (GsUnpauseRequest (requestID gsKey) extensions), t1,
                                    a @ [Engine (GsUnpauseRequest (requestID gsKey) extensions)])
                         else if chid \<in> requestorCancelledMap t1
                         then Some (None,
                                    t1\<lparr> pendingExtensions := (pendingExtensions t1)
                                          (chid \<mapsto> (case pendingExtensions t1 chid of
                                                     None \<Rightarrow> [] | Some xs \<Rightarrow> xs) @ extensions) \<rparr>,
                                    a @ [Lock, Unlock])
                         else Some (gs (GsUnpauseResponse (key_p gsKey) (requestID gsKey) extensions),
                                    t1\<lparr> channelXferStarted := (channelXferStarted t1)(chid \<mapsto> True) \<rparr>,
                                    a @ [Lock,
                                         Engine (GsUnpauseResponse (key_p gsKey) (requestID gsKey) extensions),
                                         Unlock]))))"

definition CloseChannel ::
  "(engine_call \<Rightarrow> error option) \<Rightarrow> wakeup list \<Rightarrow> Transport \<Rightarrow> ChannelID
     \<Rightarrow> (error option \<times> Transport \<times> action list) option" where
  "CloseChannel gs ws t chid =
     (if events t = None then Some (Some ErrHandlerNotSet, t, [])
      else case gsKeyFromChannelID ws t chid of
             None \<Rightarrow> None
           | Some (r, t1, a) \<Rightarrow>
               (case r of
                  Inl err \<Rightarrow> Some (Some err, t1, a)
                | Inr gsKey \<Rightarrow>
                    if key_p gsKey = peerID t1
                    then (case contextCancelMap t1 chid of
                            None \<Rightarrow> Some (Some ErrChannelNotFound, t1, a @ [RLock, RUnlock])
                          | Some cancelRQ \<Rightarrow>
                              Some (None, t1, a @ [RLock, RUnlock, Cancel (cancel cancelRQ)]))
                    else if chid \<in> requestorCancelledMap t1
                    then Some (None, t1, a @ [Lock, Unlock])
                    else Some (gs (GsCancelResponse (key_p gsKey) (requestID gsKey)), t1,
                               a @ [Lock, Unlock,
                                    Engine (GsCancelResponse (key_p gsKey) (requestID gsKey))])))"




definition UseStore ::
  "(engine_call \<Rightarrow> error option) \<Rightarrow> Transport \<Rightarrow> ChannelID \<Rightarrow> error option \<times> Transport \<times> action list" where
  "UseStore gs t channelID =
     (if channelID \<in> stores t then (None, t, [Lock, Unlock])
      else case gs (GsRegisterPersistenceOption channelID) of
             Some err \<Rightarrow> (Some err, t, [Lock, Engine (GsRegisterPersistenceOption channelID), Unlock])
           | None \<Rightarrow>
               (None, t\<lparr> stores := insert channelID (stores t) \<rparr>,
                [Lock, Engine (GsRegisterPersistenceOption channelID), Unlock]))"

section \<open>The restart coordinator\<close>

text \<open>
  \<^verbatim>\<open>impl/restart.go\<close>. A channel state is read through its accessors. What the manager
  calls outside this file is a parameter: \<^verbatim>\<open>message.NewRequest\<close> (a Go pair),
  \<^verbatim>\<open>message.RestartRequest\<close>, \<^verbatim>\<open>m.validateVoucher\<close> (its error; the two other results
  are dropped) and \<^verbatim>\<open>m.dataTransferNetwork.SendMessage\<close> (its error). The trace of a
  restart lists, in program order, the calls of \<^verbatim>\<open>m.validateVoucher\<close> and the calls
  on \<^verbatim>\<open>m.dataTransferNetwork\<close>.
\<close>

record ChannelState =
  cs_ChannelID :: ChannelID
  cs_Voucher :: string
  cs_VoucherType :: string
  cs_BaseCID :: string
  cs_Selector :: string
  cs_OtherParty :: "peer_id \<Rightarrow> peer_id"

record manager =
  m_peerID :: peer_id
  NewRequest :: "TransferID \<Rightarrow> bool \<Rightarrow> bool \<Rightarrow> string \<Rightarrow> string \<Rightarrow> string \<Rightarrow> string
                   \<Rightarrow> Message option \<times> error option"
  RestartRequest :: "ChannelID \<Rightarrow> Message"
  validateVoucher :: "peer_id \<Rightarrow> Message option \<Rightarrow> bool \<Rightarrow> string \<Rightarrow> string \<Rightarrow> error option"
  SendMessage :: "peer_id \<Rightarrow> Message \<Rightarrow> error option"

datatype manager_call =
    CallValidateVoucher peer_id bool
  | NetSendMessage peer_id Message

definition validateRestartVoucher ::
  "manager \<Rightarrow> ChannelState \<Rightarrow> bool \<Rightarrow> error option \<times> manager_call list" where
  "validateRestartVoucher m channel isPull =
     (let chid = cs_ChannelID channel
      in case NewRequest m (ID chid) False isPull (cs_VoucherType channel) (cs_Voucher channel)
                (cs_BaseCID channel) (cs_Selector channel) of
           (req, err) \<Rightarrow>
             (case err of
                Some e \<Rightarrow> (Some e, [])
              | None \<Rightarrow>
                  (case validateVoucher m (cs_OtherParty channel (m_peerID m)) req isPull
                          (cs_BaseCID channel) (cs_Selector channel) of
                     Some e \<Rightarrow> (Some e, [CallValidateVoucher (cs_OtherParty channel (m_peerID m)) isPull])
                   | None \<Rightarrow> (None, [CallValidateVoucher (cs_OtherParty channel (m_peerID m)) isPull]))))"

definition restartManagerPeerReceivePush ::
  "manager \<Rightarrow> ChannelState \<Rightarrow> error option \<times> manager_call list" where
  "restartManagerPeerReceivePush m channel =
     (case validateRestartVoucher m channel False of
        (verr, a) \<Rightarrow>
          (case verr of
             Some err \<Rightarrow> (Some err, a)
           | None \<Rightarrow>
               (let req = RestartRequest m (cs_ChannelID channel)
                in (SendMessage m (cs_OtherParty channel (m_peerID m)) req,
                    a @ [NetSendMessage (cs_OtherParty channel (m_peerID m)) req]))))"

definition restartManagerPeerReceivePull ::
  "manager \<Rightarrow> ChannelState \<Rightarrow> error option \<times> manager_call list" where
  "restartManagerPeerReceivePull m channel =
     (case validateRestartVoucher m channel True of
        (verr, a) \<Rightarrow>
          (case verr of
             Some err \<Rightarrow> (Some err, a)
           | None \<Rightarrow>
               (let req = RestartRequest m (cs_ChannelID channel)
                in (SendMessage m (cs_OtherParty channel (m_peerID m)) req,
                    a @ [NetSendMessage (cs_OtherParty channel (m_peerID m)) req]))))"

section \<open>Properties of traces and of the registry\<close>

text \<open>
  The session callbacks in a trace, the extensions sent through the hook actions, the
  engine methods called, the hooks unregistered, the cancel functions called, and the
  messages sent over the peer-to-peer network.
\<close>

fun session_events :: "action list \<Rightarrow> event_call list" where
  "session_events [] = []"
| "session_events (Event e # as) = e # session_events as"
| "session_events (_ # as) = session_events as"




fun cancelled :: "action list \<Rightarrow> nat list" where
  "cancelled [] = []"
| "cancelled (Cancel h # as) = h # cancelled as"
| "cancelled (_ # as) = cancelled as"

fun network_sends :: "manager_call list \<Rightarrow> (peer_id \<times> Message) list" where
  "network_sends [] = []"
| "network_sends (NetSendMessage q m # cs) = (q, m) # network_sends cs"
| "network_sends (_ # cs) = network_sends cs"

text \<open>
  The two directions of the bijection between the two identifier maps:
  \<open>key_to_channel_inverse\<close> says that \<open>channelOf(key(c)) = c\<close> for every channel with a key,
  \<open>channel_to_key_inverse\<close> that \<open>key(channelOf(k)) = k\<close> for every key with a channel.
\<close>

definition key_to_channel_inverse :: "Transport \<Rightarrow> bool" where
  "key_to_channel_inverse t \<longleftrightarrow>
     (\<forall>c k. channelIDMap t c = Some k \<longrightarrow> graphsyncRequestMap t k = Some c)"

definition channel_to_key_inverse :: "Transport \<Rightarrow> bool" where
  "channel_to_key_inverse t \<longleftrightarrow>
     (\<forall>k c. graphsyncRequestMap t k = Some c \<longrightarrow> channelIDMap t c = Some k)"

definition mutual_inverses :: "Transport \<Rightarrow> bool" where
  "mutual_inverses t \<longleftrightarrow> key_to_channel_inverse t \<and> channel_to_key_inverse t"

text \<open>
  \<open>keeps_key_entries t t'\<close>: every engine key that names a channel in \<open>t\<close> names the same
  channel in \<open>t'\<close>.
\<close>

definition keeps_key_entries :: "Transport \<Rightarrow> Transport \<Rightarrow> bool" where
  "keeps_key_entries t t' \<longleftrightarrow>
     (\<forall>k c. graphsyncRequestMap t k = Some c \<longrightarrow> graphsyncRequestMap t' k = Some c)"




text \<open>
  \<open>callbacks_outside_lock held as\<close>: in the trace \<open>as\<close>, started with the registry lock
  held or not, no session callback and no engine method is called while the lock is
  held. Calls on the hook actions are not counted.
\<close>

fun callbacks_outside_lock :: "bool \<Rightarrow> action list \<Rightarrow> bool" where
  "callbacks_outside_lock held [] = True"
| "callbacks_outside_lock held (Lock # as) = callbacks_outside_lock True as"
| "callbacks_outside_lock held (RLock # as) = callbacks_outside_lock True as"
| "callbacks_outside_lock held (Unlock # as) = callbacks_outside_lock False as"
| "callbacks_outside_lock held (RUnlock # as) = callbacks_outside_lock False as"
| "callbacks_outside_lock held (Event e # as) = (\<not> held \<and> callbacks_outside_lock held as)"
| "callbacks_outside_lock held (Engine c # as) = (\<not> held \<and> callbacks_outside_lock held as)"
| "callbacks_outside_lock held (_ # as) = callbacks_outside_lock held as"


section \<open>Example values\<close>

text \<open>
  A session that accepts everything, and a codec that reads the transfer ID of a
  request from the first byte of the first extension and writes a message as one
  extension for each supported name.
\<close>

definition ex_events :: EventsHandler where
  "ex_events =
     \<lparr> OnChannelOpened = (\<lambda>chid. None),
       OnRequestReceived = (\<lambda>chid req. (None, None)),
       OnResponseReceived = (\<lambda>chid resp. None),
       OnDataReceived = (\<lambda>chid link size. None),
       OnDataQueued = (\<lambda>chid link size. (None, None)),
       OnDataSent = (\<lambda>chid link size. None),
       OnRequestTimedOut = (\<lambda>chid err. None),
       OnSendDataError = (\<lambda>chid err. None),
       OnReceiveDataError = (\<lambda>chid err. None),
       OnChannelCompleted = (\<lambda>chid err. None) \<rparr>"

definition ex_codec :: codec where
  "ex_codec =
     \<lparr> GetTransferData =
         (\<lambda>exts. case exts of
                    [] \<Rightarrow> (None, None)
                  | x # _ \<Rightarrow> (case Data x of
                               [] \<Rightarrow> (None, Some (OtherError ''malformed payload''))
                             | b # _ \<Rightarrow> (Some (DTRequest (ucast b) []), None))),
       ToExtensionData =
         (\<lambda>m names. (map (\<lambda>n. \<lparr> Name = n, Data = [ucast (TransferID m)] \<rparr>) names, None)) \<rparr>"

definition ex_request :: "RequestID \<Rightarrow> 8 word \<Rightarrow> RequestData" where
  "ex_request rid tid =
     \<lparr> req_ID = rid, req_exts = [\<lparr> Name = ''ExtensionDataTransfer1_1'', Data = [tid] \<rparr>] \<rparr>"

text \<open>
  A transport with a handler and an open outgoing request for the transfer 7.
\<close>

definition ex_open_transport :: Transport where
  "ex_open_transport =
     (NewTransport ''self'')
       \<lparr> events := Some ex_events,
         contextCancelMap := [ChannelID ''self'' ''remote'' 7 \<mapsto> \<lparr> cancel = 1, completed = 2 \<rparr>] \<rparr>"

text \<open>
  A codec that cannot write a message, and a session that answers every request with a
  response message.
\<close>

definition ex_failing_codec :: codec where
  "ex_failing_codec =
     ex_codec \<lparr> ToExtensionData := (\<lambda>m names. ([], Some (OtherError ''cbor marshal failed''))) \<rparr>"

definition ex_responding_events :: EventsHandler where
  "ex_responding_events =
     ex_events \<lparr> OnRequestReceived := (\<lambda>chid req. (Some (DTResponse (TransferID req) []), None)) \<rparr>"

text \<open>
  A transport that serves the request 1 of the peer \<open>remote\<close> for the transfer 7, with
  the response still paused; the same after the requestor has cancelled, with one
  deferred extension; and the same after a resume has deferred two more.
\<close>

definition ex_paused_transport :: Transport where
  "ex_paused_transport =
     (NewTransport ''self'')
       \<lparr> events := Some ex_events,
         graphsyncRequestMap := [graphsyncKey 1 ''remote'' \<mapsto> ChannelID ''remote'' ''self'' 7],
         channelIDMap := [ChannelID ''remote'' ''self'' 7 \<mapsto> graphsyncKey 1 ''remote''],
         channelXferStarted := [ChannelID ''remote'' ''self'' 7 \<mapsto> False] \<rparr>"



text \<open>
  A manager whose \<^verbatim>\<open>NewRequest\<close> fails for an undefined base CID and whose validator
  rejects one voucher, and the state of a channel that the peer \<open>remote\<close> created.
\<close>

definition ex_manager :: manager where
  "ex_manager =
     \<lparr> m_peerID = ''self'',
       NewRequest = (\<lambda>xid isRestart isPull vtype voucher baseCid selector.
                       if baseCid = [] then (None, Some (Errorf ''base CID must be defined'' []))
                       else (Some (DTRequest xid voucher), None)),
       RestartRequest = (\<lambda>chid. DTRequest (ID chid) ''restart''),
       validateVoucher = (\<lambda>sender req isPull baseCid selector.
                            if req = Some (DTRequest 7 ''bad voucher'')
                            then Some (OtherError ''voucher rejected'') else None),
       SendMessage = (\<lambda>q msg. None) \<rparr>"

definition ex_channel :: "string \<Rightarrow> string \<Rightarrow> ChannelState" where
  "ex_channel voucher baseCid =
     \<lparr> cs_ChannelID = ChannelID ''remote'' ''self'' 7,
       cs_Voucher = voucher,
       cs_VoucherType = ''voucher type'',
       cs_BaseCID = baseCid,
       cs_Selector = ''selector'',
       cs_OtherParty = (\<lambda>q. if q = ''self'' then ''remote'' else ''self'') \<rparr>"

text \<open>
  A transport just after \<^verbatim>\<open>OpenChannel\<close> for the transfer 7: the pending latch is
  there and the engine key is not yet known.
\<close>

definition ex_pending_transport :: Transport where
  "ex_pending_transport =
     (NewTransport ''self'')
       \<lparr> events := Some ex_events,
         contextCancelMap := [ChannelID ''self'' ''remote'' 7 \<mapsto> \<lparr> cancel = 4, completed = 5 \<rparr>],
         pending := [ChannelID ''self'' ''remote'' 7 \<mapsto> 3] \<rparr>"

section \<open>The two identifier maps\<close>

lemma gsReqRecdHook_locked_maps:
  "graphsyncRequestMap (fst (gsReqRecdHook_locked t chid p r b)) = (graphsyncRequestMap t)(graphsyncKey (req_ID r) p \<mapsto> chid)"
  "channelIDMap (fst (gsReqRecdHook_locked t chid p r b)) = (channelIDMap t)(chid \<mapsto> graphsyncKey (req_ID r) p)"
  by (simp_all add: gsReqRecdHook_locked_def Let_def)

text \<open>The incoming-request hook when the request carries a message and nothing terminates it.\<close>

lemma gsReqRecdHook_reaches_lock:
  assumes "GetTransferData cd (req_exts r) = (Some msg, None)"
    and "chid = (if IsRequest msg then ChannelID p (peerID t) (TransferID msg)
                 else ChannelID (peerID t) p (TransferID msg))"
    and "(if IsRequest msg then OnRequestReceived ev chid msg
          else (None, OnResponseReceived ev chid msg)) = (rm, err)"
    and "sendResponseMessage cd t SendExtensionData rm = Some a1"
    and "err = None \<or> err = Some ErrPause"
  shows "gsReqRecdHook ev cd t p r =
           (fst (gsReqRecdHook_locked t chid p r (err = Some ErrPause)),
            [Event (if IsRequest msg then EvRequestReceived chid msg else EvResponseReceived chid msg)] @
            a1 @ (if err = Some ErrPause then [Hook PauseResponse] else []) @
            snd (gsReqRecdHook_locked t chid p r (err = Some ErrPause)) @ [Hook ValidateRequest])"
  using assms(1,3,4,5) unfolding assms(2)
  by (auto simp add: gsReqRecdHook_def Let_def split: prod.split)

lemma gsReqRecdHook_cases:
  "fst (gsReqRecdHook ev cd t p r) = t \<or>
   (\<exists>chid b. fst (gsReqRecdHook ev cd t p r) = fst (gsReqRecdHook_locked t chid p r b))"
proof -
  obtain m e where g: "GetTransferData cd (req_exts r) = (m, e)"
    by (cases "GetTransferData cd (req_exts r)")
  show ?thesis
  proof (cases e)
    case (Some x)
    with g show ?thesis by (simp add: gsReqRecdHook_def)
  next
    case None
    note e = this
    show ?thesis
    proof (cases m)
      case None
      with g e show ?thesis by (simp add: gsReqRecdHook_def)
    next
      case (Some msg)
      define chid where "chid = (if IsRequest msg then ChannelID p (peerID t) (TransferID msg)
                       else ChannelID (peerID t) p (TransferID msg))"
      obtain rm err where s: "(if IsRequest msg then OnRequestReceived ev chid msg
                   else (None, OnResponseReceived ev chid msg)) = (rm, err)"
        by (cases "if IsRequest msg then OnRequestReceived ev chid msg
                   else (None, OnResponseReceived ev chid msg)")
      have "fst (gsReqRecdHook ev cd t p r) = t \<or>
            fst (gsReqRecdHook ev cd t p r) = fst (gsReqRecdHook_locked t chid p r (err = Some ErrPause))"
        using g e Some s [unfolded chid_def]
        by (simp add: gsReqRecdHook_def Let_def chid_def split: option.split prod.split)
      then show ?thesis by blast
    qed
  qed
qed


lemma gsReqRecdHook_locked_frame:
  "peerID (fst (gsReqRecdHook_locked t chid p r b)) = peerID t"
  "supportedExtensions (fst (gsReqRecdHook_locked t chid p r b)) = supportedExtensions t"
  by (simp_all add: gsReqRecdHook_locked_def Let_def)

lemma ex_hook_fst:
  "fst (gsReqRecdHook ex_events ex_codec t q (ex_request rid tid)) =
   fst (gsReqRecdHook_locked t (ChannelID q (peerID t) (ucast tid)) q (ex_request rid tid) False)"
proof -
  have "gsReqRecdHook ex_events ex_codec t q (ex_request rid tid) =
          (fst (gsReqRecdHook_locked t (ChannelID q (peerID t) (ucast tid)) q (ex_request rid tid) (None = Some ErrPause)),
            [Event (if IsRequest (DTRequest (ucast tid) []) then EvRequestReceived (ChannelID q (peerID t) (ucast tid)) (DTRequest (ucast tid) []) else EvResponseReceived (ChannelID q (peerID t) (ucast tid)) (DTRequest (ucast tid) []))] @
            [] @ (if None = Some ErrPause then [Hook PauseResponse] else []) @
            snd (gsReqRecdHook_locked t (ChannelID q (peerID t) (ucast tid)) q (ex_request rid tid) (None = Some ErrPause)) @ [Hook ValidateRequest])"
    by (rule gsReqRecdHook_reaches_lock [where msg = "DTRequest (ucast tid) []" and rm = None])
       (simp_all add: ex_codec_def ex_events_def ex_request_def sendResponseMessage_def)
  then show ?thesis by simp
qed

lemma ex_request_ID: "req_ID (ex_request rid tid) = rid"
  by (simp add: ex_request_def)

lemma NewTransport_peerID: "peerID (NewTransport pid) = pid"
  by (simp add: NewTransport_def)

lemma NewTransport_maps:
  "graphsyncRequestMap (NewTransport pid) = Map.empty"
  "channelIDMap (NewTransport pid) = Map.empty"
  by (simp_all add: NewTransport_def)

lemma gsOutgoingRequestHook_cases:
  "(graphsyncRequestMap (fst (gsOutgoingRequestHook ev cd t p r)) = graphsyncRequestMap t \<and>
    channelIDMap (fst (gsOutgoingRequestHook ev cd t p r)) = channelIDMap t) \<or>
   (\<exists>chid. graphsyncRequestMap (fst (gsOutgoingRequestHook ev cd t p r)) =
              (graphsyncRequestMap t)(graphsyncKey (req_ID r) (peerID t) \<mapsto> chid) \<and>
            channelIDMap (fst (gsOutgoingRequestHook ev cd t p r)) =
              (channelIDMap t)(chid \<mapsto> graphsyncKey (req_ID r) (peerID t)))"
  unfolding gsOutgoingRequestHook_def
  by (auto simp: Let_def split: option.split)

lemma install_key_to_channel:
  assumes "key_to_channel_inverse t"
    and "graphsyncRequestMap t' = (graphsyncRequestMap t)(k \<mapsto> c)"
    and "channelIDMap t' = (channelIDMap t)(c \<mapsto> k)"
    and "keeps_key_entries t t'"
  shows "key_to_channel_inverse t'"
  unfolding key_to_channel_inverse_def
proof (intro allI impI)
  fix c' k' assume h: "channelIDMap t' c' = Some k'"
  show "graphsyncRequestMap t' k' = Some c'"
  proof (cases "c' = c")
    case True
    with h assms(3) have "k' = k" by simp
    with True assms(2) show ?thesis by simp
  next
    case False
    with h assms(3) have "channelIDMap t c' = Some k'" by simp
    with assms(1) have "graphsyncRequestMap t k' = Some c'" by (simp add: key_to_channel_inverse_def)
    with assms(4) show ?thesis by (simp add: keeps_key_entries_def)
  qed
qed

lemma same_maps_key_to_channel:
  assumes "key_to_channel_inverse t"
    and "graphsyncRequestMap t' = graphsyncRequestMap t"
    and "channelIDMap t' = channelIDMap t"
  shows "key_to_channel_inverse t'"
  using assms by (simp add: key_to_channel_inverse_def)

lemma gsOutgoingRequestHook_key_to_channel:
  assumes "key_to_channel_inverse t"
    and "keeps_key_entries t (fst (gsOutgoingRequestHook ev cd t p r))"
  shows "key_to_channel_inverse (fst (gsOutgoingRequestHook ev cd t p r))"
  using gsOutgoingRequestHook_cases [of ev cd t p r] assms
  by (auto intro: install_key_to_channel same_maps_key_to_channel)

lemma gsReqRecdHook_key_to_channel:
  assumes "key_to_channel_inverse t"
    and "keeps_key_entries t (fst (gsReqRecdHook ev cd t p r))"
  shows "key_to_channel_inverse (fst (gsReqRecdHook ev cd t p r))"
proof -
  from gsReqRecdHook_cases [of ev cd t p r] show ?thesis
  proof
    assume "fst (gsReqRecdHook ev cd t p r) = t"
    with assms(1) show ?thesis by simp
  next
    assume "\<exists>chid b. fst (gsReqRecdHook ev cd t p r) = fst (gsReqRecdHook_locked t chid p r b)"
    then obtain chid b where e: "fst (gsReqRecdHook ev cd t p r) = fst (gsReqRecdHook_locked t chid p r b)"
      by blast
    show ?thesis
      using assms unfolding e
      by (rule install_key_to_channel [OF _ gsReqRecdHook_locked_maps])
  qed
qed

lemma CleanupChannel_key_to_channel:
  assumes "key_to_channel_inverse t"
  shows "key_to_channel_inverse (fst (CleanupChannel t chid))"
proof (cases "channelIDMap t chid")
  case None
  with assms show ?thesis by (simp add: CleanupChannel_def)
next
  case (Some k)
  have "graphsyncRequestMap t k' = Some c' \<and> k' \<noteq> k"
    if h: "channelIDMap t c' = Some k'" "c' \<noteq> chid" for c' k'
  proof -
    from assms h(1) have a: "graphsyncRequestMap t k' = Some c'"
      by (simp add: key_to_channel_inverse_def)
    from assms Some have b: "graphsyncRequestMap t k = Some chid"
      by (simp add: key_to_channel_inverse_def)
    from a b h(2) show ?thesis by auto
  qed
  then show ?thesis
    using Some unfolding key_to_channel_inverse_def CleanupChannel_def cleanupChannel_def
    by (simp add: Let_def)
qed

lemma gsReqRecdHook_other_keys:
  "k \<noteq> graphsyncKey (req_ID r) p \<Longrightarrow>
   graphsyncRequestMap (fst (gsReqRecdHook ev cd t p r)) k = graphsyncRequestMap t k"
  using gsReqRecdHook_cases [of ev cd t p r]
  by (auto simp: gsReqRecdHook_locked_maps)

lemma gsOutgoingRequestHook_other_keys:
  "k \<noteq> graphsyncKey (req_ID r) (peerID t) \<Longrightarrow>
   graphsyncRequestMap (fst (gsOutgoingRequestHook ev cd t p r)) k = graphsyncRequestMap t k"
  using gsOutgoingRequestHook_cases [of ev cd t p r]
  by auto

lemma NewTransport_key_to_channel: "key_to_channel_inverse (NewTransport pid)"
  by (simp add: key_to_channel_inverse_def NewTransport_def)

lemma ex_out_maps:
  "graphsyncRequestMap (fst (gsOutgoingRequestHook ex_events ex_codec t q (ex_request rid tid))) =
     (graphsyncRequestMap t)(graphsyncKey rid (peerID t) \<mapsto> ChannelID (peerID t) q (ucast tid))"
  "channelIDMap (fst (gsOutgoingRequestHook ex_events ex_codec t q (ex_request rid tid))) =
     (channelIDMap t)(ChannelID (peerID t) q (ucast tid) \<mapsto> graphsyncKey rid (peerID t))"
  by (simp_all add: gsOutgoingRequestHook_def ex_codec_def ex_events_def ex_request_def Let_def)

lemma ex_hook_maps:
  "graphsyncRequestMap (fst (gsReqRecdHook ex_events ex_codec t q (ex_request rid tid))) =
     (graphsyncRequestMap t)(graphsyncKey rid q \<mapsto> ChannelID q (peerID t) (ucast tid))"
  "channelIDMap (fst (gsReqRecdHook ex_events ex_codec t q (ex_request rid tid))) =
     (channelIDMap t)(ChannelID q (peerID t) (ucast tid) \<mapsto> graphsyncKey rid q)"
  "peerID (fst (gsReqRecdHook ex_events ex_codec t q (ex_request rid tid))) = peerID t"
  by (simp_all add: ex_hook_fst gsReqRecdHook_locked_maps gsReqRecdHook_locked_frame ex_request_ID)


text \<open>
  C1, as the code has it. \<^verbatim>\<open>gsOutgoingRequestHook\<close>, \<^verbatim>\<open>gsReqRecdHook\<close> and
  \<^verbatim>\<open>cleanupChannel\<close> are the only functions that assign to \<^verbatim>\<open>graphsyncRequestMap\<close>
  or \<^verbatim>\<open>channelIDMap\<close>. One direction of the bijection is an invariant: every channel
  with a key is the channel of that key. It holds in a new transport; each of the two
  hooks keeps it when the hook does not take an engine key from the channel that it
  names in the registry; \<^verbatim>\<open>CleanupChannel\<close> keeps it. The other direction is not
  an invariant: a hook writes the entry of the engine key of its own request and leaves
  the entry of every other engine key as it is, so the old engine key of a restarted
  channel still names the channel.
\<close>

theorem registry_key_to_channel_inverse:
  "key_to_channel_inverse (NewTransport pid) \<and>
   (key_to_channel_inverse t \<and> keeps_key_entries t (fst (gsOutgoingRequestHook ev cd t p r))
      \<longrightarrow> key_to_channel_inverse (fst (gsOutgoingRequestHook ev cd t p r))) \<and>
   (key_to_channel_inverse t \<and> keeps_key_entries t (fst (gsReqRecdHook ev cd t p r))
      \<longrightarrow> key_to_channel_inverse (fst (gsReqRecdHook ev cd t p r))) \<and>
   (key_to_channel_inverse t \<longrightarrow> key_to_channel_inverse (fst (CleanupChannel t chid))) \<and>
   (k \<noteq> graphsyncKey (req_ID r) (peerID t)
      \<longrightarrow> graphsyncRequestMap (fst (gsOutgoingRequestHook ev cd t p r)) k = graphsyncRequestMap t k) \<and>
   (k \<noteq> graphsyncKey (req_ID r) p
      \<longrightarrow> graphsyncRequestMap (fst (gsReqRecdHook ev cd t p r)) k = graphsyncRequestMap t k)"
  by (simp add: NewTransport_key_to_channel gsOutgoingRequestHook_key_to_channel
      gsReqRecdHook_key_to_channel CleanupChannel_key_to_channel
      gsOutgoingRequestHook_other_keys gsReqRecdHook_other_keys)


text \<open>
  The theorem at a transport that serves the request 1 of the peer \<open>remote\<close> for the
  transfer 7: a second incoming request, an outgoing request and a cleanup.
\<close>

theorem registry_key_to_channel_inverse_witness:
  "key_to_channel_inverse (NewTransport ''self'') \<and>
   key_to_channel_inverse
     (fst (gsReqRecdHook ex_events ex_codec (NewTransport ''self'') ''remote'' (ex_request 1 7))) \<and>
   keeps_key_entries
     (fst (gsReqRecdHook ex_events ex_codec (NewTransport ''self'') ''remote'' (ex_request 1 7)))
     (fst (gsReqRecdHook ex_events ex_codec
        (fst (gsReqRecdHook ex_events ex_codec (NewTransport ''self'') ''remote'' (ex_request 1 7)))
        ''remote'' (ex_request 2 8))) \<and>
   key_to_channel_inverse
     (fst (gsReqRecdHook ex_events ex_codec
        (fst (gsReqRecdHook ex_events ex_codec (NewTransport ''self'') ''remote'' (ex_request 1 7)))
        ''remote'' (ex_request 2 8))) \<and>
   keeps_key_entries
     (fst (gsReqRecdHook ex_events ex_codec (NewTransport ''self'') ''remote'' (ex_request 1 7)))
     (fst (gsOutgoingRequestHook ex_events ex_codec
        (fst (gsReqRecdHook ex_events ex_codec (NewTransport ''self'') ''remote'' (ex_request 1 7)))
        ''remote'' (ex_request 3 9))) \<and>
   key_to_channel_inverse
     (fst (gsOutgoingRequestHook ex_events ex_codec
        (fst (gsReqRecdHook ex_events ex_codec (NewTransport ''self'') ''remote'' (ex_request 1 7)))
        ''remote'' (ex_request 3 9))) \<and>
   key_to_channel_inverse
     (fst (CleanupChannel
        (fst (gsReqRecdHook ex_events ex_codec (NewTransport ''self'') ''remote'' (ex_request 1 7)))
        (ChannelID ''remote'' ''self'' 7))) \<and>
   graphsyncKey 1 ''remote'' \<noteq> graphsyncKey (req_ID (ex_request 2 8)) ''remote'' \<and>
   graphsyncRequestMap
     (fst (gsReqRecdHook ex_events ex_codec
        (fst (gsReqRecdHook ex_events ex_codec (NewTransport ''self'') ''remote'' (ex_request 1 7)))
        ''remote'' (ex_request 2 8)))
     (graphsyncKey 1 ''remote'') = Some (ChannelID ''remote'' ''self'' 7) \<and>
   graphsyncKey 1 ''remote'' \<noteq>
     graphsyncKey (req_ID (ex_request 3 9))
       (peerID (fst (gsReqRecdHook ex_events ex_codec (NewTransport ''self'') ''remote'' (ex_request 1 7)))) \<and>
   graphsyncRequestMap
     (fst (gsOutgoingRequestHook ex_events ex_codec
        (fst (gsReqRecdHook ex_events ex_codec (NewTransport ''self'') ''remote'' (ex_request 1 7)))
        ''remote'' (ex_request 3 9)))
     (graphsyncKey 1 ''remote'') = Some (ChannelID ''remote'' ''self'' 7)"
proof -
  let ?t0 = "NewTransport ''self''"
  let ?t1 = "fst (gsReqRecdHook ex_events ex_codec ?t0 ''remote'' (ex_request 1 7))"
  let ?k1 = "graphsyncKey 1 ''remote''"
  have m1: "graphsyncRequestMap ?t1 = [?k1 \<mapsto> ChannelID ''remote'' ''self'' 7]"
    by (simp add: ex_hook_maps NewTransport_peerID NewTransport_maps)
  have p1: "peerID ?t1 = ''self''"
    by (simp add: ex_hook_maps NewTransport_peerID)
  have i0: "key_to_channel_inverse ?t0"
    using registry_key_to_channel_inverse [of "''self''"] by blast
  have k0: "keeps_key_entries ?t0 ?t1"
    by (simp add: keeps_key_entries_def NewTransport_maps)
  have i1: "key_to_channel_inverse ?t1"
    using registry_key_to_channel_inverse [of _ ?t0 ex_events ex_codec "''remote''" "ex_request 1 7"] i0 k0
    by blast
  have k2: "keeps_key_entries ?t1 (fst (gsReqRecdHook ex_events ex_codec ?t1 ''remote'' (ex_request 2 8)))"
    by (simp add: keeps_key_entries_def ex_hook_maps NewTransport_peerID NewTransport_maps)
  have k3: "keeps_key_entries ?t1 (fst (gsOutgoingRequestHook ex_events ex_codec ?t1 ''remote'' (ex_request 3 9)))"
    by (simp add: keeps_key_entries_def ex_out_maps ex_hook_maps NewTransport_peerID NewTransport_maps)
  have n2: "?k1 \<noteq> graphsyncKey (req_ID (ex_request 2 8)) ''remote''"
    by (simp add: ex_request_ID)
  have n3: "?k1 \<noteq> graphsyncKey (req_ID (ex_request 3 9)) (peerID ?t1)"
    by (simp add: ex_request_ID)
  note inst = registry_key_to_channel_inverse
    [of "''self''" ?t1 ex_events ex_codec "''remote''" _ "ChannelID ''remote'' ''self'' 7" ?k1]
  have c2: "key_to_channel_inverse (fst (gsReqRecdHook ex_events ex_codec ?t1 ''remote'' (ex_request 2 8)))"
    using inst [of "ex_request 2 8"] i1 k2 by blast
  have c3: "key_to_channel_inverse (fst (gsOutgoingRequestHook ex_events ex_codec ?t1 ''remote'' (ex_request 3 9)))"
    using inst [of "ex_request 3 9"] i1 k3 by blast
  have c4: "key_to_channel_inverse (fst (CleanupChannel ?t1 (ChannelID ''remote'' ''self'' 7)))"
    using inst [of "ex_request 2 8"] i1 by blast
  have e2: "graphsyncRequestMap (fst (gsReqRecdHook ex_events ex_codec ?t1 ''remote'' (ex_request 2 8))) ?k1
              = Some (ChannelID ''remote'' ''self'' 7)"
    using inst [of "ex_request 2 8"] n2 m1 by simp
  have e3: "graphsyncRequestMap (fst (gsOutgoingRequestHook ex_events ex_codec ?t1 ''remote'' (ex_request 3 9))) ?k1
              = Some (ChannelID ''remote'' ''self'' 7)"
    using inst [of "ex_request 3 9"] n3 m1 by simp
  from i0 i1 k2 c2 k3 c3 c4 n2 e2 n3 e3 show ?thesis by blast
qed


text \<open>
  C1 as stated fails on a restart. The peer \<open>remote\<close> opens the transfer 7 with the
  engine request 1 and restarts it with the engine request 2. The channel then has the
  key of request 2, and the key of request 1 still names the channel.
\<close>

theorem stale_key_counterexample:
  "graphsyncRequestMap
     (fst (gsReqRecdHook ex_events ex_codec
        (fst (gsReqRecdHook ex_events ex_codec (NewTransport ''self'') ''remote'' (ex_request 1 7)))
        ''remote'' (ex_request 2 7)))
     (graphsyncKey 1 ''remote'') = Some (ChannelID ''remote'' ''self'' 7) \<and>
   channelIDMap
     (fst (gsReqRecdHook ex_events ex_codec
        (fst (gsReqRecdHook ex_events ex_codec (NewTransport ''self'') ''remote'' (ex_request 1 7)))
        ''remote'' (ex_request 2 7)))
     (ChannelID ''remote'' ''self'' 7) = Some (graphsyncKey 2 ''remote'') \<and>
   \<not> mutual_inverses
     (fst (gsReqRecdHook ex_events ex_codec
        (fst (gsReqRecdHook ex_events ex_codec (NewTransport ''self'') ''remote'' (ex_request 1 7)))
        ''remote'' (ex_request 2 7)))"
proof -
  let ?t2 = "fst (gsReqRecdHook ex_events ex_codec
        (fst (gsReqRecdHook ex_events ex_codec (NewTransport ''self'') ''remote'' (ex_request 1 7)))
        ''remote'' (ex_request 2 7))"
  have a: "graphsyncRequestMap ?t2 (graphsyncKey 1 ''remote'') = Some (ChannelID ''remote'' ''self'' 7)"
    by (simp add: ex_hook_fst gsReqRecdHook_locked_maps gsReqRecdHook_locked_frame
          ex_request_ID NewTransport_peerID NewTransport_maps)
  have b: "channelIDMap ?t2 (ChannelID ''remote'' ''self'' 7) = Some (graphsyncKey 2 ''remote'')"
    by (simp add: ex_hook_fst gsReqRecdHook_locked_maps gsReqRecdHook_locked_frame
          ex_request_ID NewTransport_peerID NewTransport_maps)
  from a b have "\<not> channel_to_key_inverse ?t2"
    unfolding channel_to_key_inverse_def by fastforce
  with a b show ?thesis by (simp add: mutual_inverses_def)
qed



section \<open>Terminal outcomes of an engine request\<close>

lemma foldl_keep_last: "foldl (\<lambda>lastError err. err) a es = (if es = [] then a else last es)"
  by (induction es arbitrary: a) auto

lemma consumeResponses_last:
  "consumeResponses rs es = (if es = [] then None else last es)"
  by (simp add: consumeResponses_def foldl_keep_last)

lemma session_events_append: "session_events (as @ bs) = session_events as @ session_events bs"
  by (induction as rule: session_events.induct) auto

lemma executeGsRequest_events:
  "session_events (executeGsRequest ev t internalCtxErr chid rs es) =
     (if consumeResponses rs es = Some RequestContextCancelledErr
      then [EvRequestTimedOut chid (Errorf ''graphsync request context cancelled'' [])]
      else if consumeResponses rs es = Some RequestCancelledErr then []
      else if internalCtxErr \<noteq> None then []
      else [EvChannelCompleted chid
              (map_option (ErrorfWrap ''graphsync request failed to complete: %w'')
                 (consumeResponses rs es))])"
  by (simp add: executeGsRequest_def Let_def session_events_append split: option.split)

lemma gsCompletedResponseListener_events:
  "session_events (gsCompletedResponseListener ev t p r status) =
     (case graphsyncRequestMap t (graphsyncKey (req_ID r) p) of
        None \<Rightarrow> []
      | Some chid \<Rightarrow>
          if status = RequestCancelled then []
          else [EvChannelCompleted chid
                  (if status = RequestCompletedFull then None
                   else Some (Errorf
                     ''graphsync response to peer %s did not complete: response status code %s''
                     [p, gsResponseStatusCodeString status]))])"
  by (simp add: gsCompletedResponseListener_def Let_def session_events_append split: option.split)

lemma gsResponseStatusCodeString_named:
  "map gsResponseStatusCodeString
     [RequestAcknowledged, AdditionalPeers, NotEnoughGas, OtherProtocol, PartialResponse,
      RequestPaused, RequestCompletedFull, RequestCompletedPartial, RequestRejected,
      RequestFailedBusy, RequestFailedUnknown, RequestFailedLegal,
      RequestFailedContentNotFound, RequestCancelled] =
     [''RequestAcknowledged'', ''AdditionalPeers'', ''NotEnoughGas'', ''OtherProtocol'',
      ''PartialResponse'', ''RequestPaused'', ''RequestCompletedFull'',
      ''RequestCompletedPartial'', ''RequestRejected'', ''RequestFailedBusy'',
      ''RequestFailedUnknown'', ''RequestFailedLegal'', ''RequestFailedContentNotFound'',
      ''RequestCancelled'']"
  by (simp add: gsResponseStatusCodeString_def gsResponseStatusCodes_def)

lemma gsResponseStatusCodeString_other:
  "gsResponseStatusCodeString (OtherStatus n) = ''RequestFailedUnknown''"
  by (simp add: gsResponseStatusCodeString_def gsResponseStatusCodes_def)

text \<open>
  C2, as the code has it. The executor looks at the last value sent on the error
  stream: \<^verbatim>\<open>RequestContextCancelledErr\<close> gives \<^verbatim>\<open>OnRequestTimedOut\<close> and no other
  session event; \<^verbatim>\<open>RequestCancelledErr\<close> gives no session event; any other outcome
  gives no session event when the request's own context is cancelled, and otherwise
  \<^verbatim>\<open>OnChannelCompleted\<close>, with a nil error when the last stream error is nil and with
  the wrapped stream error otherwise. The completed-response listener gives no session
  event when the engine key names no channel or when the status is
  \<^verbatim>\<open>RequestCancelled\<close>, and otherwise \<^verbatim>\<open>OnChannelCompleted\<close>, with a nil error for
  \<^verbatim>\<open>RequestCompletedFull\<close> and with an error that names the status otherwise. The name
  is the symbol of each of the fourteen codes of the table and
  \<open>RequestFailedUnknown\<close> for any other code.
\<close>

theorem terminal_outcome_classification:
  "session_events (executeGsRequest ev t internalCtxErr chid rs es) =
     (if es \<noteq> [] \<and> last es = Some RequestContextCancelledErr
      then [EvRequestTimedOut chid (Errorf ''graphsync request context cancelled'' [])]
      else if es \<noteq> [] \<and> last es = Some RequestCancelledErr then []
      else if internalCtxErr \<noteq> None then []
      else [EvChannelCompleted chid
              (map_option (ErrorfWrap ''graphsync request failed to complete: %w'')
                 (if es = [] then None else last es))]) \<and>
   session_events (gsCompletedResponseListener ev t p r status) =
     (case graphsyncRequestMap t (graphsyncKey (req_ID r) p) of
        None \<Rightarrow> []
      | Some c \<Rightarrow>
          if status = RequestCancelled then []
          else [EvChannelCompleted c
                  (if status = RequestCompletedFull then None
                   else Some (Errorf
                     ''graphsync response to peer %s did not complete: response status code %s''
                     [p, gsResponseStatusCodeString status]))]) \<and>
   map gsResponseStatusCodeString
     [RequestAcknowledged, AdditionalPeers, NotEnoughGas, OtherProtocol, PartialResponse,
      RequestPaused, RequestCompletedFull, RequestCompletedPartial, RequestRejected,
      RequestFailedBusy, RequestFailedUnknown, RequestFailedLegal,
      RequestFailedContentNotFound, RequestCancelled] =
     [''RequestAcknowledged'', ''AdditionalPeers'', ''NotEnoughGas'', ''OtherProtocol'',
      ''PartialResponse'', ''RequestPaused'', ''RequestCompletedFull'',
      ''RequestCompletedPartial'', ''RequestRejected'', ''RequestFailedBusy'',
      ''RequestFailedUnknown'', ''RequestFailedLegal'', ''RequestFailedContentNotFound'',
      ''RequestCancelled''] \<and>
   gsResponseStatusCodeString (OtherStatus n) = ''RequestFailedUnknown''"
proof -
  have a: "session_events (executeGsRequest ev t internalCtxErr chid rs es) =
     (if es \<noteq> [] \<and> last es = Some RequestContextCancelledErr
      then [EvRequestTimedOut chid (Errorf ''graphsync request context cancelled'' [])]
      else if es \<noteq> [] \<and> last es = Some RequestCancelledErr then []
      else if internalCtxErr \<noteq> None then []
      else [EvChannelCompleted chid
              (map_option (ErrorfWrap ''graphsync request failed to complete: %w'')
                 (if es = [] then None else last es))])"
    unfolding executeGsRequest_events consumeResponses_last by simp
  show ?thesis
    using a gsCompletedResponseListener_events [of ev t p r status]
      gsResponseStatusCodeString_named gsResponseStatusCodeString_other [of n]
    by blast
qed

text \<open>
  The theorem at a stream that ends with an error, at a stream that ends with
  \<^verbatim>\<open>RequestContextCancelledErr\<close>, and at the statuses \<^verbatim>\<open>RequestRejected\<close> and
  \<^verbatim>\<open>RequestCompletedFull\<close> of a request that the transport serves.
\<close>

theorem terminal_outcome_classification_witness:
  "session_events (executeGsRequest ex_events
      (fst (gsReqRecdHook ex_events ex_codec (NewTransport ''self'') ''remote'' (ex_request 1 7))) None
      (ChannelID ''self'' ''remote'' 7) [()] [None, Some (OtherError ''stream reset'')]) =
     [EvChannelCompleted (ChannelID ''self'' ''remote'' 7)
        (Some (ErrorfWrap ''graphsync request failed to complete: %w'' (OtherError ''stream reset'')))] \<and>
   session_events (executeGsRequest ex_events
      (fst (gsReqRecdHook ex_events ex_codec (NewTransport ''self'') ''remote'' (ex_request 1 7))) None
      (ChannelID ''self'' ''remote'' 7) [()] [Some RequestContextCancelledErr]) =
     [EvRequestTimedOut (ChannelID ''self'' ''remote'' 7)
        (Errorf ''graphsync request context cancelled'' [])] \<and>
   session_events (gsCompletedResponseListener ex_events
      (fst (gsReqRecdHook ex_events ex_codec (NewTransport ''self'') ''remote'' (ex_request 1 7)))
      ''remote'' (ex_request 1 7) RequestRejected) =
     [EvChannelCompleted (ChannelID ''remote'' ''self'' 7)
        (Some (Errorf ''graphsync response to peer %s did not complete: response status code %s''
                 [''remote'', ''RequestRejected'']))] \<and>
   session_events (gsCompletedResponseListener ex_events
      (fst (gsReqRecdHook ex_events ex_codec (NewTransport ''self'') ''remote'' (ex_request 1 7)))
      ''remote'' (ex_request 1 7) RequestCompletedFull) =
     [EvChannelCompleted (ChannelID ''remote'' ''self'' 7) None]"
proof -
  let ?t1 = "fst (gsReqRecdHook ex_events ex_codec (NewTransport ''self'') ''remote'' (ex_request 1 7))"
  have m: "graphsyncRequestMap ?t1 (graphsyncKey (req_ID (ex_request 1 7)) ''remote'') =
             Some (ChannelID ''remote'' ''self'' 7)"
    by (simp add: ex_hook_maps ex_request_ID NewTransport_peerID)
  show ?thesis
    using terminal_outcome_classification
            [of ex_events ?t1 None "ChannelID ''self'' ''remote'' 7"
                "[()]" "[None, Some (OtherError ''stream reset'')]" "''remote''" "ex_request 1 7" RequestRejected 0]
          terminal_outcome_classification
            [of ex_events ?t1 None "ChannelID ''self'' ''remote'' 7"
                "[()]" "[Some RequestContextCancelledErr]" "''remote''" "ex_request 1 7" RequestCompletedFull 0]
          m
    by simp
qed

text \<open>
  C2 as stated fails in the executor: the request's own context is cancelled, the error
  stream ends with an error that is neither of the two cancellation errors, or carries
  no error at all, and the session receives no event.
\<close>

theorem executor_cancelled_context_counterexample:
  "last [Some (OtherError ''stream reset'')] \<noteq> Some RequestContextCancelledErr \<and>
   last [Some (OtherError ''stream reset'')] \<noteq> Some RequestCancelledErr \<and>
   session_events (executeGsRequest ex_events (NewTransport ''self'') (Some Canceled)
      (ChannelID ''self'' ''remote'' 7) [()] [Some (OtherError ''stream reset'')]) = [] \<and>
   session_events (executeGsRequest ex_events (NewTransport ''self'') (Some Canceled)
      (ChannelID ''self'' ''remote'' 7) [()] []) = []"
  by (simp add: executeGsRequest_def consumeResponses_def)

section \<open>Waiting in the cancel-and-reopen path\<close>











section \<open>The incoming-request hook\<close>






text \<open>
  C4 at a failing input. The session answers the request with a response message and
  a nil error, and the codec cannot serialise the message. The incoming-request hook
  and the request-updated hook call \<^verbatim>\<open>TerminateWithError\<close> with the session's error,
  which is nil, and not with the codec's error.
\<close>

theorem serialisation_error_dropped:
  "snd (gsReqRecdHook ex_responding_events ex_failing_codec (NewTransport ''self'') ''remote''
          (ex_request 1 7)) =
     [Event (EvRequestReceived (ChannelID ''remote'' ''self'' 7) (DTRequest 7 [])),
      Hook (TerminateWithError None)] \<and>
   gsRequestUpdatedHook ex_responding_events ex_failing_codec
      (fst (gsReqRecdHook ex_events ex_codec (NewTransport ''self'') ''remote'' (ex_request 1 7)))
      ''remote'' (ex_request 1 7) (ex_request 1 7) =
     [RLock, RUnlock,
      Event (EvRequestReceived (ChannelID ''remote'' ''self'' 7) (DTRequest 7 [])),
      Hook (TerminateWithError None)]"
proof -
  let ?t1 = "fst (gsReqRecdHook ex_events ex_codec (NewTransport ''self'') ''remote'' (ex_request 1 7))"
  have m: "graphsyncRequestMap ?t1 (graphsyncKey 1 ''remote'') = Some (ChannelID ''remote'' ''self'' 7)"
    by (simp add: ex_hook_maps NewTransport_peerID)
  have p: "peerID ?t1 = ''self''"
    by (simp add: ex_hook_maps NewTransport_peerID)
  have a: "snd (gsReqRecdHook ex_responding_events ex_failing_codec (NewTransport ''self'') ''remote''
          (ex_request 1 7)) =
     [Event (EvRequestReceived (ChannelID ''remote'' ''self'' 7) (DTRequest 7 [])),
      Hook (TerminateWithError None)]"
    by (simp add: gsReqRecdHook_def ex_responding_events_def ex_failing_codec_def ex_codec_def
          ex_events_def ex_request_def NewTransport_def sendResponseMessage_def)
  have g: "gsRequestUpdatedHook ex_responding_events ex_failing_codec t
      ''remote'' (ex_request 1 7) (ex_request 1 7) =
     [RLock, RUnlock,
      Event (EvRequestReceived (ChannelID ''remote'' ''self'' 7) (DTRequest 7 [])),
      Hook (TerminateWithError None)]"
    if "graphsyncRequestMap t (graphsyncKey 1 ''remote'') = Some (ChannelID ''remote'' ''self'' 7)"
      and "peerID t = ''self''" for t
    using that
    by (simp add: gsRequestUpdatedHook_def processExtension_def ex_responding_events_def
          ex_failing_codec_def ex_codec_def ex_events_def ex_request_def sendResponseMessage_def)
  have b: "gsRequestUpdatedHook ex_responding_events ex_failing_codec ?t1
      ''remote'' (ex_request 1 7) (ex_request 1 7) =
     [RLock, RUnlock,
      Event (EvRequestReceived (ChannelID ''remote'' ''self'' 7) (DTRequest 7 [])),
      Hook (TerminateWithError None)]"
    by (rule g [OF m p])
  from a b show ?thesis by blast
qed


section \<open>Resuming while the requestor is cancelled\<close>










section \<open>Shutdown and cleanup\<close>














section \<open>Restart of a channel that the other peer created\<close>

lemma validateRestartVoucher_cases:
  "(snd (NewRequest m (ID (cs_ChannelID channel)) False isPull (cs_VoucherType channel)
           (cs_Voucher channel) (cs_BaseCID channel) (cs_Selector channel)) = Some e
      \<longrightarrow> validateRestartVoucher m channel isPull = (Some e, [])) \<and>
   (snd (NewRequest m (ID (cs_ChannelID channel)) False isPull (cs_VoucherType channel)
           (cs_Voucher channel) (cs_BaseCID channel) (cs_Selector channel)) = None
      \<longrightarrow> validateRestartVoucher m channel isPull =
            (validateVoucher m (cs_OtherParty channel (m_peerID m))
               (fst (NewRequest m (ID (cs_ChannelID channel)) False isPull (cs_VoucherType channel)
                      (cs_Voucher channel) (cs_BaseCID channel) (cs_Selector channel)))
               isPull (cs_BaseCID channel) (cs_Selector channel),
             [CallValidateVoucher (cs_OtherParty channel (m_peerID m)) isPull]))"
  by (auto simp add: validateRestartVoucher_def Let_def split: prod.split option.split)

text \<open>
  C8. In \<^verbatim>\<open>restartManagerPeerReceivePush\<close> and \<^verbatim>\<open>restartManagerPeerReceivePull\<close>, when
  \<^verbatim>\<open>validateRestartVoucher\<close> fails, either because the original request cannot be
  rebuilt or because the voucher validation fails, the restart returns that error and
  sends nothing over the network. When it succeeds, the voucher validation is the first
  call and the one \<^verbatim>\<open>SendMessage\<close> of the restart request the second, and the restart
  returns the error of \<^verbatim>\<open>SendMessage\<close>.
\<close>

theorem restart_revalidates_before_network:
  "(fst (validateRestartVoucher m channel False) = Some e
      \<longrightarrow> restartManagerPeerReceivePush m channel =
            (Some e, snd (validateRestartVoucher m channel False)) \<and>
          network_sends (snd (restartManagerPeerReceivePush m channel)) = []) \<and>
   (fst (validateRestartVoucher m channel True) = Some e
      \<longrightarrow> restartManagerPeerReceivePull m channel =
            (Some e, snd (validateRestartVoucher m channel True)) \<and>
          network_sends (snd (restartManagerPeerReceivePull m channel)) = []) \<and>
   (fst (validateRestartVoucher m channel False) = None
      \<longrightarrow> restartManagerPeerReceivePush m channel =
            (SendMessage m (cs_OtherParty channel (m_peerID m)) (RestartRequest m (cs_ChannelID channel)),
             [CallValidateVoucher (cs_OtherParty channel (m_peerID m)) False,
              NetSendMessage (cs_OtherParty channel (m_peerID m)) (RestartRequest m (cs_ChannelID channel))])) \<and>
   (fst (validateRestartVoucher m channel True) = None
      \<longrightarrow> restartManagerPeerReceivePull m channel =
            (SendMessage m (cs_OtherParty channel (m_peerID m)) (RestartRequest m (cs_ChannelID channel)),
             [CallValidateVoucher (cs_OtherParty channel (m_peerID m)) True,
              NetSendMessage (cs_OtherParty channel (m_peerID m)) (RestartRequest m (cs_ChannelID channel))])) \<and>
   (snd (NewRequest m (ID (cs_ChannelID channel)) False isPull (cs_VoucherType channel)
           (cs_Voucher channel) (cs_BaseCID channel) (cs_Selector channel)) = Some e
      \<longrightarrow> validateRestartVoucher m channel isPull = (Some e, [])) \<and>
   (snd (NewRequest m (ID (cs_ChannelID channel)) False isPull (cs_VoucherType channel)
           (cs_Voucher channel) (cs_BaseCID channel) (cs_Selector channel)) = None
      \<longrightarrow> validateRestartVoucher m channel isPull =
            (validateVoucher m (cs_OtherParty channel (m_peerID m))
               (fst (NewRequest m (ID (cs_ChannelID channel)) False isPull (cs_VoucherType channel)
                      (cs_Voucher channel) (cs_BaseCID channel) (cs_Selector channel)))
               isPull (cs_BaseCID channel) (cs_Selector channel),
             [CallValidateVoucher (cs_OtherParty channel (m_peerID m)) isPull]))"
proof -
  have v: "snd (validateRestartVoucher m channel b) = [] \<or>
           snd (validateRestartVoucher m channel b) =
             [CallValidateVoucher (cs_OtherParty channel (m_peerID m)) b]" for b
    by (auto simp add: validateRestartVoucher_def Let_def split: prod.split option.split)
  have n: "fst (validateRestartVoucher m channel b) = None \<Longrightarrow>
           snd (validateRestartVoucher m channel b) =
             [CallValidateVoucher (cs_OtherParty channel (m_peerID m)) b]" for b
    by (auto simp add: validateRestartVoucher_def Let_def split: prod.splits option.splits)
  have push_fail: "restartManagerPeerReceivePush m channel =
            (Some e, snd (validateRestartVoucher m channel False)) \<and>
          network_sends (snd (restartManagerPeerReceivePush m channel)) = []"
    if "fst (validateRestartVoucher m channel False) = Some e"
    using that v [of False]
    by (cases "validateRestartVoucher m channel False")
       (auto simp add: restartManagerPeerReceivePush_def)
  have pull_fail: "restartManagerPeerReceivePull m channel =
            (Some e, snd (validateRestartVoucher m channel True)) \<and>
          network_sends (snd (restartManagerPeerReceivePull m channel)) = []"
    if "fst (validateRestartVoucher m channel True) = Some e"
    using that v [of True]
    by (cases "validateRestartVoucher m channel True")
       (auto simp add: restartManagerPeerReceivePull_def)
  have push_ok: "restartManagerPeerReceivePush m channel =
            (SendMessage m (cs_OtherParty channel (m_peerID m)) (RestartRequest m (cs_ChannelID channel)),
             [CallValidateVoucher (cs_OtherParty channel (m_peerID m)) False,
              NetSendMessage (cs_OtherParty channel (m_peerID m)) (RestartRequest m (cs_ChannelID channel))])"
    if "fst (validateRestartVoucher m channel False) = None"
    using that n [of False]
    by (cases "validateRestartVoucher m channel False")
       (auto simp add: restartManagerPeerReceivePush_def Let_def)
  have pull_ok: "restartManagerPeerReceivePull m channel =
            (SendMessage m (cs_OtherParty channel (m_peerID m)) (RestartRequest m (cs_ChannelID channel)),
             [CallValidateVoucher (cs_OtherParty channel (m_peerID m)) True,
              NetSendMessage (cs_OtherParty channel (m_peerID m)) (RestartRequest m (cs_ChannelID channel))])"
    if "fst (validateRestartVoucher m channel True) = None"
    using that n [of True]
    by (cases "validateRestartVoucher m channel True")
       (auto simp add: restartManagerPeerReceivePull_def Let_def)
  show ?thesis
    using push_fail pull_fail push_ok pull_ok validateRestartVoucher_cases [of m channel isPull e]
    by blast
qed

text \<open>
  The theorem at a channel with an undefined base CID, at a channel with a rejected
  voucher, and at a channel that passes the validation.
\<close>

theorem restart_revalidates_before_network_witness:
  "validateRestartVoucher ex_manager (ex_channel ''voucher'' []) False =
     (Some (Errorf ''base CID must be defined'' []), []) \<and>
   restartManagerPeerReceivePush ex_manager (ex_channel ''voucher'' []) =
     (Some (Errorf ''base CID must be defined'' []), []) \<and>
   validateRestartVoucher ex_manager (ex_channel ''bad voucher'' ''cid'') True =
     (Some (OtherError ''voucher rejected''), [CallValidateVoucher ''remote'' True]) \<and>
   fst (restartManagerPeerReceivePull ex_manager (ex_channel ''bad voucher'' ''cid'')) =
     Some (OtherError ''voucher rejected'') \<and>
   network_sends (snd (restartManagerPeerReceivePull ex_manager (ex_channel ''bad voucher'' ''cid''))) = [] \<and>
   restartManagerPeerReceivePush ex_manager (ex_channel ''voucher'' ''cid'') =
     (None, [CallValidateVoucher ''remote'' False,
             NetSendMessage ''remote'' (DTRequest 7 ''restart'')]) \<and>
   restartManagerPeerReceivePull ex_manager (ex_channel ''voucher'' ''cid'') =
     (None, [CallValidateVoucher ''remote'' True,
             NetSendMessage ''remote'' (DTRequest 7 ''restart'')])"
proof -
  note i1 = restart_revalidates_before_network
    [of ex_manager "ex_channel ''voucher'' []" "Errorf ''base CID must be defined'' []" False]
  note i2 = restart_revalidates_before_network
    [of ex_manager "ex_channel ''bad voucher'' ''cid''" "OtherError ''voucher rejected''" True]
  note i3 = restart_revalidates_before_network
    [of ex_manager "ex_channel ''voucher'' ''cid''" "OtherError ''voucher rejected''" False]
  note i4 = restart_revalidates_before_network
    [of ex_manager "ex_channel ''voucher'' ''cid''" "OtherError ''voucher rejected''" True]
  have a: "validateRestartVoucher ex_manager (ex_channel ''voucher'' []) False =
     (Some (Errorf ''base CID must be defined'' []), [])"
    using i1 by (simp add: ex_manager_def ex_channel_def)
  have b: "restartManagerPeerReceivePush ex_manager (ex_channel ''voucher'' []) =
     (Some (Errorf ''base CID must be defined'' []), [])"
    using i1 a by simp
  have c: "validateRestartVoucher ex_manager (ex_channel ''bad voucher'' ''cid'') True =
     (Some (OtherError ''voucher rejected''), [CallValidateVoucher ''remote'' True])"
    using i2 by (simp add: ex_manager_def ex_channel_def)
  have d: "fst (restartManagerPeerReceivePull ex_manager (ex_channel ''bad voucher'' ''cid'')) =
     Some (OtherError ''voucher rejected'') \<and>
   network_sends (snd (restartManagerPeerReceivePull ex_manager (ex_channel ''bad voucher'' ''cid''))) = []"
    using i2 c by simp
  have e: "validateRestartVoucher ex_manager (ex_channel ''voucher'' ''cid'') False =
     (None, [CallValidateVoucher ''remote'' False])"
    using i3 by (simp add: ex_manager_def ex_channel_def)
  have f: "validateRestartVoucher ex_manager (ex_channel ''voucher'' ''cid'') True =
     (None, [CallValidateVoucher ''remote'' True])"
    using i4 by (simp add: ex_manager_def ex_channel_def)
  have g: "restartManagerPeerReceivePush ex_manager (ex_channel ''voucher'' ''cid'') =
     (None, [CallValidateVoucher ''remote'' False,
             NetSendMessage ''remote'' (DTRequest 7 ''restart'')])"
    using i3 e by (simp add: ex_manager_def ex_channel_def)
  have h: "restartManagerPeerReceivePull ex_manager (ex_channel ''voucher'' ''cid'') =
     (None, [CallValidateVoucher ''remote'' True,
             NetSendMessage ''remote'' (DTRequest 7 ''restart'')])"
    using i4 f by (simp add: ex_manager_def ex_channel_def)
  from a b c d g h show ?thesis by blast
qed

section \<open>The registry lock and the session callbacks\<close>

lemma hooks_keep_lock_state:
  "callbacks_outside_lock h (map (\<lambda>x. Hook (f x)) xs @ bs) = callbacks_outside_lock h bs"
  by (induction xs) auto

lemma hooks_only_ok:
  "callbacks_outside_lock h (map (\<lambda>x. Hook (f x)) xs)"
  using hooks_keep_lock_state [of h f xs "[]"] by simp

lemma sendResponseMessage_Some:
  "sendResponseMessage cd t send rm = Some a1 \<Longrightarrow> \<exists>xs. a1 = map (\<lambda>x. Hook (send x)) xs"
  by (cases rm) (auto simp add: sendResponseMessage_def split: prod.splits option.splits)

lemma gsReqRecdHook_locked_discipline:
  "callbacks_outside_lock h (snd (gsReqRecdHook_locked t chid p r b) @ bs) =
     callbacks_outside_lock False bs"
  by (simp add: gsReqRecdHook_locked_def Let_def hooks_keep_lock_state)

lemma gsOutgoingRequestHook_discipline:
  "callbacks_outside_lock False (snd (gsOutgoingRequestHook ev cd t p r))"
  by (simp add: gsOutgoingRequestHook_def Let_def split: option.split)

lemma gsReqRecdHook_discipline:
  "callbacks_outside_lock False (snd (gsReqRecdHook ev cd t p r))"
proof -
  obtain m e where g: "GetTransferData cd (req_exts r) = (m, e)"
    by (cases "GetTransferData cd (req_exts r)")
  show ?thesis
  proof (cases e)
    case (Some x)
    with g show ?thesis by (simp add: gsReqRecdHook_def)
  next
    case None
    note e = this
    show ?thesis
    proof (cases m)
      case None
      with g e show ?thesis by (simp add: gsReqRecdHook_def)
    next
      case (Some msg)
      define chid where "chid = (if IsRequest msg then ChannelID p (peerID t) (TransferID msg)
                       else ChannelID (peerID t) p (TransferID msg))"
      obtain rm err where s: "(if IsRequest msg then OnRequestReceived ev chid msg
                   else (None, OnResponseReceived ev chid msg)) = (rm, err)"
        by (cases "if IsRequest msg then OnRequestReceived ev chid msg
                   else (None, OnResponseReceived ev chid msg)")
      show ?thesis
      proof (cases "sendResponseMessage cd t SendExtensionData rm")
        case None
        with g e Some s [unfolded chid_def] show ?thesis
          by (simp add: gsReqRecdHook_def Let_def)
      next
        case (Some a1)
        then obtain xs where a1: "a1 = map (\<lambda>x. Hook (SendExtensionData x)) xs"
          using sendResponseMessage_Some by blast
        show ?thesis
        proof (cases "err = None \<or> err = Some ErrPause")
          case True
          show ?thesis
            unfolding gsReqRecdHook_reaches_lock [OF g [unfolded e \<open>m = Some msg\<close>] chid_def s Some True]
            by (simp add: a1 hooks_keep_lock_state gsReqRecdHook_locked_discipline)
        next
          case False
          with g e \<open>m = Some msg\<close> s [unfolded chid_def] Some show ?thesis
            by (simp add: gsReqRecdHook_def Let_def a1 hooks_keep_lock_state)
        qed
      qed
    qed
  qed
qed

lemma gsIncomingBlockHook_discipline:
  "callbacks_outside_lock False (gsIncomingBlockHook ev t p response block)"
  by (simp add: gsIncomingBlockHook_def Let_def split: option.split)

lemma gsBlockSentHook_discipline:
  "callbacks_outside_lock False (gsBlockSentHook ev t p r block)"
  by (simp add: gsBlockSentHook_def split: option.split)

lemma gsOutgoingBlockHook_discipline:
  "callbacks_outside_lock False (gsOutgoingBlockHook ev cd t p r block)"
  by (simp add: gsOutgoingBlockHook_def hooks_only_ok hooks_keep_lock_state
        split: option.split prod.split)

lemma gsCompletedResponseListener_discipline:
  "callbacks_outside_lock False (gsCompletedResponseListener ev t p r status)"
  by (simp add: gsCompletedResponseListener_def Let_def split: option.split)

lemma processExtension_trace:
  "snd (processExtension ev cd t chid x p) = [] \<or>
   (\<exists>e. snd (processExtension ev cd t chid x p) = [Event e])"
proof -
  obtain m e where g: "GetTransferData cd x = (m, e)"
    by (cases "GetTransferData cd x")
  show ?thesis
  proof (cases e)
    case (Some err)
    with g show ?thesis by (simp add: processExtension_def)
  next
    case None
    note e = this
    show ?thesis
    proof (cases m)
      case None
      with g e show ?thesis by (simp add: processExtension_def)
    next
      case (Some msg)
      have "processExtension ev cd t chid x p =
             (if IsRequest msg
                    then (if chid \<noteq> ChannelID p (peerID t) (TransferID msg)
                          then ((None, Some (ErrorsNew ''received request on response channel'')), [])
                          else (OnRequestReceived ev chid msg, [Event (EvRequestReceived chid msg)]))
                    else (if chid \<noteq> ChannelID (peerID t) p (TransferID msg)
                          then ((None, Some (ErrorsNew ''received response on request channel'')), [])
                          else ((None, OnResponseReceived ev chid msg),
                                [Event (EvResponseReceived chid msg)])))"
        unfolding processExtension_def g e Some by simp
      then show ?thesis by (simp del: ChannelID.inject)
    qed
  qed
qed

lemma processExtension_discipline:
  "callbacks_outside_lock False (snd (processExtension ev cd t chid x p) @ bs) =
     callbacks_outside_lock False bs"
  using processExtension_trace [of ev cd t chid x p] by auto

lemma gsRequestUpdatedHook_discipline:
  "callbacks_outside_lock False (gsRequestUpdatedHook ev cd t p r u)"
proof (cases "graphsyncRequestMap t (graphsyncKey (req_ID r) p)")
  case None
  then show ?thesis by (simp add: gsRequestUpdatedHook_def)
next
  case (Some chid)
  obtain rm err a0 where pe: "processExtension ev cd t chid (req_exts u) p = ((rm, err), a0)"
    by (cases "processExtension ev cd t chid (req_exts u) p") auto
  have a0: "callbacks_outside_lock False (a0 @ bs) = callbacks_outside_lock False bs" for bs
    using processExtension_discipline [of ev cd t chid "req_exts u" p bs] pe by simp
  show ?thesis
  proof (cases "sendResponseMessage cd t SendExtensionData rm")
    case None
    with Some pe a0 show ?thesis by (simp add: gsRequestUpdatedHook_def)
  next
    case (Some a1)
    then obtain xs where a1: "a1 = map (\<lambda>x. Hook (SendExtensionData x)) xs"
      using sendResponseMessage_Some by blast
    with \<open>graphsyncRequestMap t (graphsyncKey (req_ID r) p) = Some chid\<close> pe a0 Some show ?thesis
      by (simp add: gsRequestUpdatedHook_def hooks_keep_lock_state hooks_only_ok)
  qed
qed

lemma gsIncomingResponseHook_discipline:
  "callbacks_outside_lock False (gsIncomingResponseHook ev cd t p resp)"
proof (cases "graphsyncRequestMap t (graphsyncKey (resp_RequestID resp) (peerID t))")
  case None
  then show ?thesis by (simp add: gsIncomingResponseHook_def)
next
  case (Some chid)
  obtain rm err a0 where pe: "processExtension ev cd t chid (resp_exts resp) p = ((rm, err), a0)"
    by (cases "processExtension ev cd t chid (resp_exts resp) p") auto
  have a0: "callbacks_outside_lock False (a0 @ bs) = callbacks_outside_lock False bs" for bs
    using processExtension_discipline [of ev cd t chid "resp_exts resp" p bs] pe by simp
  show ?thesis
  proof (cases "sendResponseMessage cd t UpdateRequestWithExtensions rm")
    case None
    with Some pe a0 show ?thesis by (simp add: gsIncomingResponseHook_def)
  next
    case (Some a1)
    then obtain xs where a1: "a1 = map (\<lambda>x. Hook (UpdateRequestWithExtensions x)) xs"
      using sendResponseMessage_Some by blast
    with \<open>graphsyncRequestMap t (graphsyncKey (resp_RequestID resp) (peerID t)) = Some chid\<close> pe a0 Some
    show ?thesis
      by (simp add: gsIncomingResponseHook_def hooks_keep_lock_state hooks_only_ok)
  qed
qed

lemma gsRequestorCancelledListener_discipline:
  "callbacks_outside_lock False (snd (gsRequestorCancelledListener t p r))"
  by (simp add: gsRequestorCancelledListener_def split: option.split)

lemma gsNetworkSendErrorListener_under_lock:
  "session_events (gsNetworkSendErrorListener ev t p r gserr) \<noteq> [] \<Longrightarrow>
   \<not> callbacks_outside_lock False (gsNetworkSendErrorListener ev t p r gserr)"
  by (simp add: gsNetworkSendErrorListener_def split: option.splits)

lemma receive_events_under_lock:
  "callbacks_outside_lock True
     (concat (map (\<lambda>k. case m k of
                         None \<Rightarrow> []
                       | Some chid \<Rightarrow>
                           if Initiator chid \<noteq> p \<and> Responder chid \<noteq> p then []
                           else [Event (EvReceiveDataError chid gserr)]) order) @ bs) \<Longrightarrow>
   session_events
     (concat (map (\<lambda>k. case m k of
                         None \<Rightarrow> []
                       | Some chid \<Rightarrow>
                           if Initiator chid \<noteq> p \<and> Responder chid \<noteq> p then []
                           else [Event (EvReceiveDataError chid gserr)]) order)) = []"
  by (induction order) (auto split: option.splits if_splits)

lemma gsNetworkReceiveErrorListener_under_lock:
  "session_events (gsNetworkReceiveErrorListener ev t order p gserr) \<noteq> [] \<Longrightarrow>
   \<not> callbacks_outside_lock False (gsNetworkReceiveErrorListener ev t order p gserr)"
  using receive_events_under_lock
    [where m = "graphsyncRequestMap t" and p = p and gserr = gserr and order = order and bs = "[Unlock]"]
  by (auto simp add: gsNetworkReceiveErrorListener_def session_events_append)

text \<open>
  C9, as the code has it. In nine of the eleven hooks and listeners no session callback
  and no engine method is called while the registry lock is held (calls on the hook
  actions are not counted: the outgoing-request and the incoming-request hooks make
  some of them under the lock). The network send-error listener and the network
  receive-error listener hold the lock until they return: whenever one of them calls
  \<^verbatim>\<open>OnSendDataError\<close> or \<^verbatim>\<open>OnReceiveDataError\<close>, it does so with the lock held.
\<close>

theorem hooks_call_session_outside_lock:
  "callbacks_outside_lock False (snd (gsOutgoingRequestHook ev cd t p r)) \<and>
   callbacks_outside_lock False (snd (gsReqRecdHook ev cd t p r)) \<and>
   callbacks_outside_lock False (gsIncomingBlockHook ev t p response block) \<and>
   callbacks_outside_lock False (gsBlockSentHook ev t p r block) \<and>
   callbacks_outside_lock False (gsOutgoingBlockHook ev cd t p r block) \<and>
   callbacks_outside_lock False (gsCompletedResponseListener ev t p r status) \<and>
   callbacks_outside_lock False (gsRequestUpdatedHook ev cd t p r u) \<and>
   callbacks_outside_lock False (gsIncomingResponseHook ev cd t p response) \<and>
   callbacks_outside_lock False (snd (gsRequestorCancelledListener t p r)) \<and>
   (session_events (gsNetworkSendErrorListener ev t p r gserr) \<noteq> []
      \<longrightarrow> \<not> callbacks_outside_lock False (gsNetworkSendErrorListener ev t p r gserr)) \<and>
   (session_events (gsNetworkReceiveErrorListener ev t order p gserr) \<noteq> []
      \<longrightarrow> \<not> callbacks_outside_lock False (gsNetworkReceiveErrorListener ev t order p gserr))"
  by (simp add: gsOutgoingRequestHook_discipline gsReqRecdHook_discipline
      gsIncomingBlockHook_discipline gsBlockSentHook_discipline gsOutgoingBlockHook_discipline
      gsCompletedResponseListener_discipline gsRequestUpdatedHook_discipline
      gsIncomingResponseHook_discipline gsRequestorCancelledListener_discipline
      gsNetworkSendErrorListener_under_lock gsNetworkReceiveErrorListener_under_lock)

text \<open>
  The theorem at a transport that serves the request 1 of the peer \<open>remote\<close>.
\<close>

theorem hooks_call_session_outside_lock_witness:
  "callbacks_outside_lock False
     (snd (gsReqRecdHook ex_events ex_codec ex_paused_transport ''remote'' (ex_request 1 7))) \<and>
   callbacks_outside_lock False
     (gsCompletedResponseListener ex_events ex_paused_transport ''remote'' (ex_request 1 7)
        RequestCompletedFull) \<and>
   session_events (gsNetworkSendErrorListener ex_events ex_paused_transport ''remote'' (ex_request 1 7)
      (OtherError ''connection reset'')) \<noteq> [] \<and>
   \<not> callbacks_outside_lock False
       (gsNetworkSendErrorListener ex_events ex_paused_transport ''remote'' (ex_request 1 7)
          (OtherError ''connection reset'')) \<and>
   session_events (gsNetworkReceiveErrorListener ex_events ex_paused_transport
      [graphsyncKey 1 ''remote''] ''remote'' (OtherError ''connection reset'')) \<noteq> [] \<and>
   \<not> callbacks_outside_lock False
       (gsNetworkReceiveErrorListener ex_events ex_paused_transport [graphsyncKey 1 ''remote'']
          ''remote'' (OtherError ''connection reset''))"
proof -
  have a: "session_events (gsNetworkSendErrorListener ex_events ex_paused_transport ''remote''
      (ex_request 1 7) (OtherError ''connection reset'')) \<noteq> []"
    by (simp add: gsNetworkSendErrorListener_def ex_paused_transport_def ex_request_def)
  have b: "session_events (gsNetworkReceiveErrorListener ex_events ex_paused_transport
      [graphsyncKey 1 ''remote''] ''remote'' (OtherError ''connection reset'')) \<noteq> []"
    by (simp add: gsNetworkReceiveErrorListener_def ex_paused_transport_def)
  show ?thesis
    using hooks_call_session_outside_lock
      [of ex_events ex_codec ex_paused_transport "''remote''" "ex_request 1 7"
          "\<lparr> resp_RequestID = 1, resp_exts = [] \<rparr>"
          "\<lparr> Link = ''link'', BlockSize = 1024, BlockSizeOnWire = 1024 \<rparr>"
          RequestCompletedFull "ex_request 1 7" "OtherError ''connection reset''"
          "[graphsyncKey 1 ''remote'']"] a b
    by simp
qed

text \<open>
  C9 as stated fails for the two network-error listeners: each takes the lock, calls
  the session, and releases the lock afterwards.
\<close>

theorem send_error_listener_counterexample:
  "gsNetworkSendErrorListener ex_events ex_paused_transport ''remote'' (ex_request 1 7)
      (OtherError ''connection reset'') =
     [Lock, Event (EvSendDataError (ChannelID ''remote'' ''self'' 7) (OtherError ''connection reset'')),
      Unlock] \<and>
   gsNetworkReceiveErrorListener ex_events ex_paused_transport [graphsyncKey 1 ''remote''] ''remote''
      (OtherError ''connection reset'') =
     [Lock, Event (EvReceiveDataError (ChannelID ''remote'' ''self'' 7) (OtherError ''connection reset'')),
      Unlock] \<and>
   \<not> callbacks_outside_lock False
       (gsNetworkSendErrorListener ex_events ex_paused_transport ''remote'' (ex_request 1 7)
          (OtherError ''connection reset'')) \<and>
   \<not> callbacks_outside_lock False
       (gsNetworkReceiveErrorListener ex_events ex_paused_transport [graphsyncKey 1 ''remote'']
          ''remote'' (OtherError ''connection reset''))"
  by (simp add: gsNetworkSendErrorListener_def gsNetworkReceiveErrorListener_def
      ex_paused_transport_def ex_request_def)


section \<open>Waiting for the engine key\<close>

lemma gsKeyFromChannelID_error:
  "gsKeyFromChannelID ws t chid = Some (Inl e, t', a) \<Longrightarrow> e = ErrChannelNotFound"
proof (induction ws arbitrary: t a)
  case Nil
  then show ?case
    by (auto simp add: gsKeyFromChannelID.simps [of "[]"] split: option.splits)
next
  case (Cons w ws)
  show ?case
  proof (cases w)
    case CtxIsDone
    with Cons.prems show ?thesis
      by (auto simp add: gsKeyFromChannelID.simps [of "CtxIsDone # ws"] split: option.splits)
  next
    case (PendingClosed t1)
    show ?thesis
    proof (cases "channelIDMap t chid = None \<and> pending t chid \<noteq> None")
      case True
      with Cons.prems PendingClosed obtain a' where
        "gsKeyFromChannelID ws t1 chid = Some (Inl e, t', a')"
        by (auto simp add: gsKeyFromChannelID.simps [of "PendingClosed t1 # ws"] split: option.splits)
      then show ?thesis by (rule Cons.IH)
    next
      case False
      with Cons.prems PendingClosed show ?thesis
        by (auto simp add: gsKeyFromChannelID.simps [of "PendingClosed t1 # ws"] split: option.splits)
    qed
  qed
qed

lemma gsKeyFromChannelID_ctx_done:
  "channelIDMap t chid = None \<Longrightarrow> pending t chid = Some l \<Longrightarrow>
   gsKeyFromChannelID (CtxIsDone # ws) t chid = Some (Inl ErrChannelNotFound, t, [RLock, RUnlock])"
  by (simp add: gsKeyFromChannelID.simps [of "CtxIsDone # ws"])

lemma gsKeyFromChannelID_no_record:
  "channelIDMap t chid = None \<Longrightarrow> pending t chid = None \<Longrightarrow>
   gsKeyFromChannelID ws t chid = Some (Inl ErrChannelNotFound, t, [RLock, RUnlock])"
  by (simp add: gsKeyFromChannelID.simps [of ws])

lemma facade_key_error:
  assumes "events t \<noteq> None"
    and "gsKeyFromChannelID ws t chid = Some (Inl e, t1, a)"
  shows "PauseChannel gs ws t chid = Some (Some e, t1, a) \<and>
         ResumeChannel gs cd ws t msg chid = Some (Some e, t1, a) \<and>
         CloseChannel gs ws t chid = Some (Some e, t1, a)"
proof -
  from assms(1) obtain ev where "events t = Some ev" by auto
  with assms(2) show ?thesis
    by (simp add: PauseChannel_def ResumeChannel_def CloseChannel_def)
qed

text \<open>
  C10. For a channel with a pending latch and no engine key, when the context is done
  while \<^verbatim>\<open>gsKeyFromChannelID\<close> waits on the latch, in the first round of its loop or
  in a later one, the call returns \<^verbatim>\<open>ErrChannelNotFound\<close>, and with a handler set so
  do \<^verbatim>\<open>PauseChannel\<close>, \<^verbatim>\<open>ResumeChannel\<close> and \<^verbatim>\<open>CloseChannel\<close>. The same error is
  returned for a channel with neither an engine key nor a pending latch. No other error
  is ever returned by \<^verbatim>\<open>gsKeyFromChannelID\<close>, so the context's own error never is.
\<close>

theorem await_engine_key_not_found:
  "(channelIDMap t chid = None \<and> pending t chid = Some l \<longrightarrow>
      gsKeyFromChannelID (CtxIsDone # ws) t chid =
        Some (Inl ErrChannelNotFound, t, [RLock, RUnlock]) \<and>
      (events t \<noteq> None \<longrightarrow>
         PauseChannel gs (CtxIsDone # ws) t chid =
           Some (Some ErrChannelNotFound, t, [RLock, RUnlock]) \<and>
         ResumeChannel gs cd (CtxIsDone # ws) t msg chid =
           Some (Some ErrChannelNotFound, t, [RLock, RUnlock]) \<and>
         CloseChannel gs (CtxIsDone # ws) t chid =
           Some (Some ErrChannelNotFound, t, [RLock, RUnlock]))) \<and>
   (channelIDMap t chid = None \<and> pending t chid = Some l \<and>
    channelIDMap t' chid = None \<and> pending t' chid = Some l' \<and> events t \<noteq> None \<longrightarrow>
      PauseChannel gs (PendingClosed t' # CtxIsDone # ws) t chid =
        Some (Some ErrChannelNotFound, t', [RLock, RUnlock, RLock, RUnlock]) \<and>
      ResumeChannel gs cd (PendingClosed t' # CtxIsDone # ws) t msg chid =
        Some (Some ErrChannelNotFound, t', [RLock, RUnlock, RLock, RUnlock]) \<and>
      CloseChannel gs (PendingClosed t' # CtxIsDone # ws) t chid =
        Some (Some ErrChannelNotFound, t', [RLock, RUnlock, RLock, RUnlock])) \<and>
   (channelIDMap t chid = None \<and> pending t chid = None \<longrightarrow>
      gsKeyFromChannelID ws t chid = Some (Inl ErrChannelNotFound, t, [RLock, RUnlock]) \<and>
      (events t \<noteq> None \<longrightarrow>
         PauseChannel gs ws t chid = Some (Some ErrChannelNotFound, t, [RLock, RUnlock]) \<and>
         ResumeChannel gs cd ws t msg chid = Some (Some ErrChannelNotFound, t, [RLock, RUnlock]) \<and>
         CloseChannel gs ws t chid = Some (Some ErrChannelNotFound, t, [RLock, RUnlock]))) \<and>
   (gsKeyFromChannelID ws t chid = Some (Inl e, t', a) \<longrightarrow> e = ErrChannelNotFound)"
proof -
  have later: "gsKeyFromChannelID (PendingClosed t' # CtxIsDone # ws) t chid =
                 Some (Inl ErrChannelNotFound, t', [RLock, RUnlock, RLock, RUnlock])"
    if "channelIDMap t chid = None" "pending t chid = Some l"
       "channelIDMap t' chid = None" "pending t' chid = Some l'"
    using that gsKeyFromChannelID_ctx_done [of t' chid l' ws]
    by (simp add: gsKeyFromChannelID.simps [of "PendingClosed t' # CtxIsDone # ws"])
  show ?thesis
    using gsKeyFromChannelID_ctx_done [of t chid l ws] gsKeyFromChannelID_no_record [of t chid ws]
      gsKeyFromChannelID_error [of ws t chid e t' a] later
      facade_key_error [of t "CtxIsDone # ws" chid ErrChannelNotFound t "[RLock, RUnlock]" gs cd msg]
      facade_key_error [of t ws chid ErrChannelNotFound t "[RLock, RUnlock]" gs cd msg]
      facade_key_error [of t "PendingClosed t' # CtxIsDone # ws" chid ErrChannelNotFound t'
         "[RLock, RUnlock, RLock, RUnlock]" gs cd msg]
    by simp
qed

text \<open>
  The theorem at a transport whose channel is pending, and at a transport whose channel
  has neither a key nor a pending latch.
\<close>

theorem await_engine_key_not_found_witness:
  "channelIDMap ex_pending_transport (ChannelID ''self'' ''remote'' 7) = None \<and>
   pending ex_pending_transport (ChannelID ''self'' ''remote'' 7) = Some 3 \<and>
   events ex_pending_transport \<noteq> None \<and>
   PauseChannel (\<lambda>c. None) [CtxIsDone] ex_pending_transport (ChannelID ''self'' ''remote'' 7) =
     Some (Some ErrChannelNotFound, ex_pending_transport, [RLock, RUnlock]) \<and>
   ResumeChannel (\<lambda>c. None) ex_codec [CtxIsDone] ex_pending_transport None
      (ChannelID ''self'' ''remote'' 7) =
     Some (Some ErrChannelNotFound, ex_pending_transport, [RLock, RUnlock]) \<and>
   CloseChannel (\<lambda>c. None) [CtxIsDone] ex_pending_transport (ChannelID ''self'' ''remote'' 7) =
     Some (Some ErrChannelNotFound, ex_pending_transport, [RLock, RUnlock]) \<and>
   CloseChannel (\<lambda>c. None) [PendingClosed ex_pending_transport, CtxIsDone] ex_pending_transport
      (ChannelID ''self'' ''remote'' 7) =
     Some (Some ErrChannelNotFound, ex_pending_transport, [RLock, RUnlock, RLock, RUnlock]) \<and>
   channelIDMap ex_open_transport (ChannelID ''self'' ''remote'' 7) = None \<and>
   pending ex_open_transport (ChannelID ''self'' ''remote'' 7) = None \<and>
   events ex_open_transport \<noteq> None \<and>
   PauseChannel (\<lambda>c. None) [] ex_open_transport (ChannelID ''self'' ''remote'' 7) =
     Some (Some ErrChannelNotFound, ex_open_transport, [RLock, RUnlock])"
proof -
  let ?c = "ChannelID ''self'' ''remote'' 7"
  have h1: "channelIDMap ex_pending_transport ?c = None" "pending ex_pending_transport ?c = Some 3"
    "events ex_pending_transport \<noteq> None"
    by (simp_all add: ex_pending_transport_def NewTransport_def)
  have h2: "channelIDMap ex_open_transport ?c = None" "pending ex_open_transport ?c = None"
    "events ex_open_transport \<noteq> None"
    by (simp_all add: ex_open_transport_def NewTransport_def)
  have w1: "PauseChannel (\<lambda>c. None) [CtxIsDone] ex_pending_transport ?c =
              Some (Some ErrChannelNotFound, ex_pending_transport, [RLock, RUnlock]) \<and>
            ResumeChannel (\<lambda>c. None) ex_codec [CtxIsDone] ex_pending_transport None ?c =
              Some (Some ErrChannelNotFound, ex_pending_transport, [RLock, RUnlock]) \<and>
            CloseChannel (\<lambda>c. None) [CtxIsDone] ex_pending_transport ?c =
              Some (Some ErrChannelNotFound, ex_pending_transport, [RLock, RUnlock]) \<and>
            CloseChannel (\<lambda>c. None) [PendingClosed ex_pending_transport, CtxIsDone]
               ex_pending_transport ?c =
              Some (Some ErrChannelNotFound, ex_pending_transport, [RLock, RUnlock, RLock, RUnlock])"
    using await_engine_key_not_found
      [of ex_pending_transport ?c 3 "[]" "\<lambda>c. None" ex_codec None ex_pending_transport 3
          ErrChannelNotFound "[]"] h1
    by simp
  have w2: "PauseChannel (\<lambda>c. None) [] ex_open_transport ?c =
              Some (Some ErrChannelNotFound, ex_open_transport, [RLock, RUnlock])"
    using await_engine_key_not_found
      [of ex_open_transport ?c 3 "[]" "\<lambda>c. None" ex_codec None ex_open_transport 3
          ErrChannelNotFound "[]"] h2
    by simp
  from h1 h2 w1 w2 show ?thesis by blast
qed

end
